theory Spec2Isabelle
  imports Main "HOL-Library.Sublist" "HOL-Library.Word"
begin

chapter \<open>The integrated build job of LocalSignTool\<close>

text \<open>
  A shallow embedding of the two Go files that carry the integrated build job:
  \<^verbatim>\<open>src/builders/integrated_job.go\<close> (extractJobIdFromArchive and ProcessIntegratedJob) and
  \<^verbatim>\<open>src/signing/cli.go\<close> (the wait loop of processIntegratedJobDirectly and Prompt2FA).
  The functions keep their names and the order of their steps; every early return is a
  branch, a panic is a value of its own, and everything a function changes is a field of a
  state that is passed in and returned. What the functions call outside these two files is
  either a parameter (the Go library's tar reader, pipe and \<^verbatim>\<open>strings.ToLower\<close>, the operating
  system's failures, the entrypoint executable, \<^verbatim>\<open>TakeLastJob\<close>) or modelled from the
  specification where it says how the missing code behaves (the job queue, the application
  record, the builder's getters, \<^verbatim>\<open>util.TrimWhitespace\<close>). The definitions come first, the
  properties after them.
\<close>

section \<open>Errors, strings and byte buffers\<close>

text \<open>
  Go strings and byte slices are sequences of bytes; both are modelled as \<open>string\<close>
  (a list of 8-bit characters), so the conversion \<^verbatim>\<open>string(idBuf)\<close> is the identity.

  Error values follow \<^verbatim>\<open>github.com/pkg/errors\<close>: \<^verbatim>\<open>errors.New\<close> and \<^verbatim>\<open>errors.Errorf\<close> make
  a leaf carrying its text, \<^verbatim>\<open>errors.WithMessage(err, msg)\<close> wraps a cause. Errors that
  the operating system or a collaborator hands back are leaves as well. Two leaves are
  compared by their text (Go compares sentinel errors by identity).
\<close>

type_synonym bytes = string

datatype error = ErrorNew string | WithMessage error string

text \<open>\<^verbatim>\<open>err.Error()\<close>: a wrapped error prints its message, a colon and the cause.\<close>

fun Error :: "error \<Rightarrow> string" where
  "Error (ErrorNew s) = s"
| "Error (WithMessage e m) = m @ '': '' @ Error e"

text \<open>\<^verbatim>\<open>errors.Is(err, target)\<close>: \<open>target\<close> is \<open>err\<close> or one of its causes.\<close>

fun errors_Is :: "error \<Rightarrow> error \<Rightarrow> bool" where
  "errors_Is (ErrorNew s) target = (ErrorNew s = target)"
| "errors_Is (WithMessage e m) target = (WithMessage e m = target \<or> errors_Is e target)"

definition io_EOF :: error where
  "io_EOF = ErrorNew ''EOF''"

definition io_ErrUnexpectedEOF :: error where
  "io_ErrUnexpectedEOF = ErrorNew ''unexpected EOF''"

text \<open>
  A function of the program either returns or panics; a panic in a goroutine ends the
  process, so a panic of a callee is a panic of its caller.
\<close>

datatype 'a outcome = Panic string | Return 'a

subsection \<open>White space\<close>

text \<open>
  \<^verbatim>\<open>strings.TrimSpace\<close> removes leading and trailing white space as Unicode defines it.
  On the bytes of a string these are the six ASCII characters tab, line feed, vertical tab,
  form feed, carriage return and space, and the UTF-8 encodings of U+0085, U+00A0, U+1680,
  U+2000 to U+200A, U+2028, U+2029, U+202F, U+205F and U+3000.
\<close>

definition space_runes :: "string list" where
  "space_runes =
     [[CHR 0x09], [CHR 0x0A], [CHR 0x0B], [CHR 0x0C], [CHR 0x0D], [CHR 0x20],
      [CHR 0xC2, CHR 0x85], [CHR 0xC2, CHR 0xA0], [CHR 0xE1, CHR 0x9A, CHR 0x80],
      [CHR 0xE2, CHR 0x80, CHR 0x80], [CHR 0xE2, CHR 0x80, CHR 0x81],
      [CHR 0xE2, CHR 0x80, CHR 0x82], [CHR 0xE2, CHR 0x80, CHR 0x83],
      [CHR 0xE2, CHR 0x80, CHR 0x84], [CHR 0xE2, CHR 0x80, CHR 0x85],
      [CHR 0xE2, CHR 0x80, CHR 0x86], [CHR 0xE2, CHR 0x80, CHR 0x87],
      [CHR 0xE2, CHR 0x80, CHR 0x88], [CHR 0xE2, CHR 0x80, CHR 0x89],
      [CHR 0xE2, CHR 0x80, CHR 0x8A], [CHR 0xE2, CHR 0x80, CHR 0xA8],
      [CHR 0xE2, CHR 0x80, CHR 0xA9], [CHR 0xE2, CHR 0x80, CHR 0xAF],
      [CHR 0xE2, CHR 0x81, CHR 0x9F], [CHR 0xE3, CHR 0x80, CHR 0x80]]"

text \<open>The number of bytes of the white-space rune a string starts with (0 when it starts with none).\<close>

definition leading_space :: "string list \<Rightarrow> string \<Rightarrow> nat" where
  "leading_space runes s = (case find (\<lambda>r. r \<noteq> [] \<and> prefix r s) runes of None \<Rightarrow> 0 | Some r \<Rightarrow> length r)"

function TrimLeft :: "string list \<Rightarrow> string \<Rightarrow> string" where
  "TrimLeft runes s =
     (if leading_space runes s = 0 then s else TrimLeft runes (drop (leading_space runes s) s))"
  by pat_completeness auto

lemma leading_space_le: "leading_space runes s \<le> length s"
  by (auto simp: leading_space_def find_Some_iff prefix_def split: option.splits)

termination TrimLeft
proof (relation "measure (\<lambda>(runes, s). length s)")
  show "wf (measure (\<lambda>(runes, s). length s))" by simp
next
  fix runes :: "string list" and s :: string
  assume "leading_space runes s \<noteq> 0"
  moreover have "leading_space runes s \<le> length s" by (rule leading_space_le)
  ultimately show "((runes, drop (leading_space runes s) s), (runes, s)) \<in> measure (\<lambda>(runes, s). length s)"
    by simp
qed

text \<open>Trailing white space is leading white space of the reversed string, rune by rune.\<close>

definition TrimSpace :: "string \<Rightarrow> string" where
  "TrimSpace s = rev (TrimLeft (map rev space_runes) (rev (TrimLeft space_runes s)))"

text \<open>
  Modelled from the spec: \<^verbatim>\<open>util.TrimWhitespace\<close> is called by the builder but its file is
  not among the sources. The spec calls its result the ``(trimmed) text'' of a control
  file; it is taken to remove leading and trailing white space as \<^verbatim>\<open>strings.TrimSpace\<close> does.
\<close>

definition TrimWhitespace :: "string \<Rightarrow> string" where
  "TrimWhitespace s = TrimSpace s"

section \<open>The archive, as \<^verbatim>\<open>archive/tar\<close> reads it\<close>

text \<open>
  \<^verbatim>\<open>archive/tar\<close> belongs to the Go library, not to this program. What the program sees
  of a byte buffer through \<^verbatim>\<open>tar.NewReader\<close> is a finite sequence of entries and the error
  that ends it: \<^verbatim>\<open>io.EOF\<close> after a complete archive, another error where the buffer is
  truncated or corrupt. Of an entry it sees the header fields it uses and, by reading, the
  payload bytes the buffer really holds for it: fewer than \<open>Size\<close> when the buffer ends
  early (then reading stops with \<open>payload_err\<close>), none for the header-only kinds.
  The reader is a parameter of every function that opens one.
\<close>

record Header =
  Name :: string
  Size :: int
  Typeflag :: char
  Mode :: int

record tar_entry =
  header :: Header
  payload :: bytes
  payload_err :: "error option"

record tar_stream =
  entries :: "tar_entry list"
  stream_end :: error

definition tar_TypeDir :: char where
  "tar_TypeDir = CHR ''5''"

text \<open>
  \<^verbatim>\<open>make([]byte, n)\<close> panics when \<open>n\<close> is negative or more than the runtime can
  allocate; on the 64-bit platforms the limit \<open>maxAlloc\<close> is \<open>2^48\<close> bytes.
\<close>

definition maxAlloc :: int where
  "maxAlloc = 2 ^ 48"

definition make_bytes :: "int \<Rightarrow> nat outcome" where
  "make_bytes n =
     (if n < 0 \<or> maxAlloc < n then Panic ''runtime error: makeslice: len out of range''
      else Return (nat n))"

text \<open>
  \<^verbatim>\<open>io.ReadFull(tr, buf)\<close> with a buffer of \<open>n\<close> bytes: the first \<open>n\<close> payload bytes, or
  the error that stopped the read (\<^verbatim>\<open>io.EOF\<close> only when nothing was read).
\<close>

definition io_ReadFull :: "tar_entry \<Rightarrow> nat \<Rightarrow> error + bytes" where
  "io_ReadFull e n =
     (if n \<le> length (payload e) then Inr (take n (payload e))
      else Inl (case payload_err e of
                  Some err \<Rightarrow> err
                | None \<Rightarrow> if payload e = [] then io_EOF else io_ErrUnexpectedEOF))"

section \<open>\<^verbatim>\<open>builders/integrated_job.go\<close>: extractJobIdFromArchive\<close>

text \<open>
  The loop over \<^verbatim>\<open>tr.Next()\<close>. Both \<^verbatim>\<open>io.EOF\<close> and any other error of \<^verbatim>\<open>Next\<close> leave the loop,
  so the end of the entry list returns the empty string whatever ended it. An entry named
  \<^verbatim>\<open>id.txt\<close> allocates \<^verbatim>\<open>header.Size\<close> bytes and reads them in full; any other entry is
  skipped (\<^verbatim>\<open>io.Copy(io.Discard, tr)\<close>, its result ignored), which leaves the rest of the
  sequence as it is.
\<close>

fun scan_id_txt :: "tar_entry list \<Rightarrow> string outcome" where
  "scan_id_txt [] = Return ''''"
| "scan_id_txt (e # es) =
     (if Name (header e) = ''id.txt'' then
        (case make_bytes (Size (header e)) of
           Panic p \<Rightarrow> Panic p
         | Return n \<Rightarrow>
             (case io_ReadFull e n of
                Inr idBuf \<Rightarrow> Return (TrimWhitespace idBuf)
              | Inl err \<Rightarrow> Return ''''))
      else scan_id_txt es)"

definition extractJobIdFromArchive :: "(bytes \<Rightarrow> tar_stream) \<Rightarrow> bytes \<Rightarrow> string outcome" where
  "extractJobIdFromArchive newReader archiveBuffer =
     (if length archiveBuffer = 0 then Return ''''
      else scan_id_txt (entries (newReader archiveBuffer)))"

section \<open>Logging\<close>

text \<open>
  A zerolog event: its level, its message and its string fields. An \<^verbatim>\<open>.Err(err)\<close> field
  is the field \<^verbatim>\<open>error\<close> with the error's text.
\<close>

datatype level = DebugLevel | InfoLevel | WarnLevel | ErrorLevel

datatype log_line = Log level string "(string \<times> string) list"

section \<open>The job queue\<close>

text \<open>
  Modelled from the spec: the queue entry of the \<^verbatim>\<open>storage\<close> package, which is not among
  the sources. The spec's ``Return Job'' is ``identified by a job id'', ``references
  exactly one application id'' and ``carries a Two-Factor Relay slot (unset, or set-once to
  a string)''; the unset slot is the empty string, as \<^verbatim>\<open>TwoFactorCode.Load() == ""\<close> in the
  wait loop reads it. The queue is the list of its entries.
\<close>

record ReturnJob =
  Id_job :: string
  AppId :: string
  TwoFactorCode :: string

text \<open>
  Modelled from the spec: \<^verbatim>\<open>GetById\<close> of the absent \<^verbatim>\<open>storage\<close> package, the spec's
  ``get by id(job id) \<open>\<rightarrow>\<close> entry, found''.
\<close>

definition GetById :: "ReturnJob list \<Rightarrow> string \<Rightarrow> ReturnJob option" where
  "GetById jobs jid = find (\<lambda>j. Id_job j = jid) jobs"

text \<open>
  Modelled from the spec: \<^verbatim>\<open>storage.Jobs.GetByAppId\<close> of the absent \<^verbatim>\<open>storage\<close> package, the
  spec's ``get by application id(application id) \<open>\<rightarrow>\<close> entry, found''.
\<close>

definition GetByAppId :: "ReturnJob list \<Rightarrow> string \<Rightarrow> ReturnJob option" where
  "GetByAppId jobs appId = find (\<lambda>j. AppId j = appId) jobs"

text \<open>
  Modelled from the spec: \<^verbatim>\<open>DeleteById\<close> of the absent \<^verbatim>\<open>storage\<close> package, the spec's
  ``delete by id(job id) \<open>\<rightarrow>\<close> deleted? (idempotent: deleting an absent id is a no-op
  returning false, never an error)''.
\<close>

definition DeleteById :: "ReturnJob list \<Rightarrow> string \<Rightarrow> bool \<times> ReturnJob list" where
  "DeleteById jobs jid = (GetById jobs jid \<noteq> None, filter (\<lambda>j. Id_job j \<noteq> jid) jobs)"

text \<open>
  Modelled from the spec: \<^verbatim>\<open>TwoFactorCode.Store\<close> of the absent \<^verbatim>\<open>storage\<close> package, the
  spec's ``set(code) stores a trimmed string'' on the slot ``attached to each queue
  entry''. The lookup hands out the entry itself, so the store is seen in the queue.
\<close>

definition Store_TwoFactorCode :: "ReturnJob list \<Rightarrow> string \<Rightarrow> string \<Rightarrow> ReturnJob list" where
  "Store_TwoFactorCode jobs jid code =
     map (\<lambda>j. if Id_job j = jid then j\<lparr>TwoFactorCode := code\<rparr> else j) jobs"

section \<open>\<^verbatim>\<open>signing/cli.go\<close>: Prompt2FA\<close>

text \<open>
  Standard input is the bytes it still holds and the error that ends it (\<^verbatim>\<open>io.EOF\<close> at
  the end of the input). \<^verbatim>\<open>reader.ReadString('\n')\<close> returns the bytes up to and with the
  first line feed; when the input ends before one, it returns the error.
\<close>

definition bufio_ReadString :: "string \<Rightarrow> error \<Rightarrow> error + string" where
  "bufio_ReadString input end_err =
     (if CHR ''\<newline>'' \<in> set input
      then Inr (takeWhile (\<lambda>c. c \<noteq> CHR ''\<newline>'') input @ [CHR ''\<newline>''])
      else Inl end_err)"

record prompt_run =
  returned :: "error + string"
  jobs_after :: "ReturnJob list"
  printed :: string
  logged :: "log_line list"

definition Prompt2FA :: "ReturnJob list \<Rightarrow> string \<Rightarrow> error \<Rightarrow> string \<Rightarrow> prompt_run" where
  "Prompt2FA jobs input end_err appId =
     (case bufio_ReadString input end_err of
        Inl err \<Rightarrow>
          \<lparr>returned = Inl (WithMessage err ''read 2FA code''), jobs_after = jobs,
           printed = ''Enter 2FA code: '', logged = []\<rparr>
      | Inr line \<Rightarrow>
          (let code = TrimSpace line in
           case GetByAppId jobs appId of
             Some job \<Rightarrow>
               \<lparr>returned = Inr code,
                jobs_after = Store_TwoFactorCode jobs (Id_job job) code,
                printed = ''Enter 2FA code: '',
                logged = [Log InfoLevel ''2FA code set in job'' [(''app_id'', appId)]]\<rparr>
           | None \<Rightarrow>
               \<lparr>returned = Inr code, jobs_after = jobs,
                printed = ''Enter 2FA code: '', logged = []\<rparr>))"

section \<open>\<^verbatim>\<open>signing/cli.go\<close>: the wait loop of processIntegratedJobDirectly\<close>

text \<open>
  The loop runs beside the builder's worker, so what it finds in the queue and on the
  application at each poll is an input: \<open>polls k\<close> is what iteration \<open>k\<close> sees.
  \<open>entry\<close> is the result of \<^verbatim>\<open>storage.Jobs.GetByAppId(appId)\<close>, \<open>IsSigned\<close> that of
  \<^verbatim>\<open>app.IsSigned()\<close>, \<open>status\<close> the pair (pending, exists) of
  \<^verbatim>\<open>storage.Jobs.GetStatusByAppId(appId)\<close>; these three functions are not among the sources.

  Durations are nanoseconds (\<^verbatim>\<open>time.Duration\<close>). The clock is read once per iteration:
  every \<^verbatim>\<open>time.Since\<close> and \<^verbatim>\<open>time.Now\<close> of an iteration agrees with the reading of the loop
  condition. Between two readings \<^verbatim>\<open>time.Sleep(pollInterval)\<close> passes, and \<open>lag\<close> more
  nanoseconds for everything else the iteration does.
\<close>

record poll =
  entry :: "ReturnJob option"
  IsSigned :: "error + bool"
  status :: "bool \<times> bool"
  lag :: nat

record wait_state =
  elapsed :: int
  returnJobId_w :: string
  last2FACheck :: int
  twoFAMessageShown :: bool
  logs :: "log_line list"

definition pollInterval :: int where
  "pollInterval = 500 * 1000000"

definition checkInterval :: int where
  "checkInterval = 2 * 1000000000"

text \<open>The periodic look at the two-factor slot of the entry found.\<close>

definition check_2FA :: "ReturnJob \<Rightarrow> wait_state \<Rightarrow> wait_state" where
  "check_2FA job st =
     (if elapsed st - last2FACheck st \<ge> checkInterval then
        (let st' =
           (if TwoFactorCode job = '''' then
              (if \<not> twoFAMessageShown st \<and> elapsed st > 5 * 1000000000
               then st\<lparr>twoFAMessageShown := True,
                       logs := logs st @ [Log InfoLevel
                         ''If 2FA code is required, you will be prompted by fastlane.'' []]\<rparr>
               else st)
            else
              (if \<not> twoFAMessageShown st
               then st\<lparr>twoFAMessageShown := True,
                       logs := logs st @ [Log InfoLevel
                         ''2FA code provided, waiting for processing''
                         [(''return_job_id'', returnJobId_w st)]]\<rparr>
               else st))
         in st'\<lparr>last2FACheck := elapsed st'\<rparr>)
      else st)"

text \<open>
  One pass through the body of the loop, before the sleep: \<open>Inl\<close> when the body returns
  from the function (with the error, \<open>None\<close> for \<^verbatim>\<open>nil\<close>, and the log), \<open>Inr\<close> when it goes
  on to sleep.
\<close>

definition wait_body :: "string \<Rightarrow> poll \<Rightarrow> wait_state \<Rightarrow> (error option \<times> log_line list) + wait_state" where
  "wait_body appId p st =
     (case entry p of
        Some job \<Rightarrow>
          (let st1 =
             (if returnJobId_w st = ''''
              then st\<lparr>returnJobId_w := Id_job job,
                      logs := logs st @ [Log InfoLevel ''return job created, waiting for processing''
                        [(''return_job_id'', Id_job job)]]\<rparr>
              else st)
           in Inr (check_2FA job st1))
      | None \<Rightarrow>
          (case IsSigned p of
             Inl err \<Rightarrow> Inl (Some (WithMessage err ''check signed status''), logs st)
           | Inr True \<Rightarrow>
               Inl (None, logs st @ [Log InfoLevel ''job completed successfully'' [(''app_id'', appId)]])
           | Inr False \<Rightarrow>
               (case status p of
                  (pending, exists) \<Rightarrow>
                    if \<not> pending \<and> \<not> exists
                    then Inl (Some (ErrorNew ''job completed but app is not signed''), logs st)
                    else Inr st)))"

definition sleep :: "poll \<Rightarrow> wait_state \<Rightarrow> wait_state" where
  "sleep p st = st\<lparr>elapsed := elapsed st + pollInterval + int (lag p)\<rparr>"

lemma wait_body_elapsed: "wait_body appId p st = Inr st' \<Longrightarrow> elapsed st' = elapsed st"
  by (auto simp: wait_body_def check_2FA_def Let_def split: option.splits sum.splits bool.splits if_splits prod.splits)

function wait_loop :: "string \<Rightarrow> (nat \<Rightarrow> poll) \<Rightarrow> int \<Rightarrow> nat \<Rightarrow> wait_state \<Rightarrow> error option \<times> log_line list" where
  "wait_loop appId polls maxWaitTime k st =
     (if elapsed st < maxWaitTime then
        (case wait_body appId (polls k) st of
           Inl r \<Rightarrow> r
         | Inr st' \<Rightarrow> wait_loop appId polls maxWaitTime (Suc k) (sleep (polls k) st'))
      else (Some (ErrorNew ''timeout waiting for job to be processed''), logs st))"
  by pat_completeness auto

termination wait_loop
proof (relation "measure (\<lambda>(appId, polls, maxWaitTime, k, st). nat (maxWaitTime - elapsed st))")
  show "wf (measure (\<lambda>(appId, polls, maxWaitTime, k, st). nat (maxWaitTime - elapsed st)))"
    by simp
next
  fix appId :: string and polls :: "nat \<Rightarrow> poll" and maxWaitTime :: int and k :: nat
    and st st' :: wait_state
  assume "elapsed st < maxWaitTime" and "wait_body appId (polls k) st = Inr st'"
  then show "((appId, polls, maxWaitTime, Suc k, sleep (polls k) st'), (appId, polls, maxWaitTime, k, st))
      \<in> measure (\<lambda>(appId, polls, maxWaitTime, k, st). nat (maxWaitTime - elapsed st))"
    by (simp add: sleep_def pollInterval_def wait_body_elapsed)
qed

text \<open>
  processIntegratedJobDirectly. The builder's process function is installed and the
  builder is triggered (both in \<^verbatim>\<open>builders.Integrated\<close>, which is not among the sources;
  \<open>trigger_err\<close> is the result of \<^verbatim>\<open>integrated.Trigger()\<close>). An error of the trigger is
  returned; otherwise the loop runs until \<open>maxWaitTime\<close>, the builder's job timeout.
\<close>

definition wait_start :: "string \<Rightarrow> wait_state" where
  "wait_start appId =
     \<lparr>elapsed = 0, returnJobId_w = '''', last2FACheck = 0, twoFAMessageShown = False,
      logs = [Log InfoLevel ''triggered builder, waiting for completion'' [(''app_id'', appId)]]\<rparr>"

definition processIntegratedJobDirectly ::
    "error option \<Rightarrow> int \<Rightarrow> (nat \<Rightarrow> poll) \<Rightarrow> string \<Rightarrow> error option \<times> log_line list" where
  "processIntegratedJobDirectly trigger_err maxWaitTime polls appId =
     (case trigger_err of
        Some err \<Rightarrow> (Some (WithMessage err ''trigger builder''), [])
      | None \<Rightarrow> wait_loop appId polls maxWaitTime 0 (wait_start appId))"

section \<open>Paths and the file system\<close>

text \<open>
  An absolute, cleaned path is the list of its components below the root. A directory
  entry is a directory or a regular file with its permission bits (\<^verbatim>\<open>os.FileMode\<close>, 32
  bits; the process umask is not applied) and, for a file, its content. Symbolic links
  are not modelled.
\<close>

type_synonym path = "string list"

datatype node = Dir "32 word" | File "32 word" bytes

type_synonym filesystem = "path \<Rightarrow> node option"

text \<open>\<^verbatim>\<open>strings.Split(s, "/")\<close>: the pieces of \<open>s\<close> between separators.\<close>

fun split_acc :: "string \<Rightarrow> string \<Rightarrow> string list" where
  "split_acc acc [] = [rev acc]"
| "split_acc acc (c # cs) =
     (if c = CHR ''/'' then rev acc # split_acc [] cs else split_acc (c # acc) cs)"

text \<open>
  \<^verbatim>\<open>filepath.Clean\<close> on an absolute path, component by component: empty components and
  \<^verbatim>\<open>.\<close> are dropped, \<^verbatim>\<open>..\<close> removes the component before it, and at the root it is
  dropped.
\<close>

fun resolve :: "path \<Rightarrow> string list \<Rightarrow> path" where
  "resolve p [] = p"
| "resolve p (c # cs) =
     (if c = '''' \<or> c = ''.'' then resolve p cs
      else if c = ''..'' then resolve (butlast p) cs
      else resolve (p @ [c]) cs)"

text \<open>\<^verbatim>\<open>filepath.Join(dir, name)\<close> for an absolute, cleaned \<open>dir\<close>: \<^verbatim>\<open>Clean(dir + "/" + name)\<close>.\<close>

definition filepath_Join :: "path \<Rightarrow> string \<Rightarrow> path" where
  "filepath_Join dir name = resolve dir (split_acc [] name)"

definition filepath_Dir :: "path \<Rightarrow> path" where
  "filepath_Dir p = butlast p"

definition path_string :: "path \<Rightarrow> string" where
  "path_string p = (if p = [] then ''/'' else concat (map (\<lambda>c. ''/'' @ c) p))"

definition FileMode :: "int \<Rightarrow> 32 word" where
  "FileMode m = word_of_int m"

section \<open>The operating system and the collaborators\<close>

text \<open>
  Every call that leaves the program can fail for reasons the program does not control.
  \<open>fault\<close> says, for each such call, whether it fails this way and with which error;
  where it does not, the call does what the state of the file system or of the store
  determines.
\<close>

datatype syscall =
    Sys_MkdirTemp | Sys_Abs | Sys_CopySignFiles | Sys_MkdirAll path | Sys_OpenFile path
  | Sys_Write path | Sys_GetFile string | Sys_Create path | Sys_CopyUnsigned
  | Sys_StdoutPipe | Sys_StderrPipe | Sys_Start | Sys_Stat path | Sys_Open path
  | Sys_SetFile string | Sys_ReadFile path | Sys_SetString string

text \<open>
  The command the worker starts, and what the entrypoint does with it. The entrypoint is
  a black box: given the command, the deadline and the file system it finds, it leaves a
  file system and the result of \<^verbatim>\<open>cmd.Wait()\<close>: \<open>None\<close> for exit status 0, an error for any
  other exit status and for a process killed at the deadline.

  Of what the entrypoint writes to its two streams, the program sees the lines that the
  two \<^verbatim>\<open>bufio.Scanner\<close> loops read, in the order in which the loops take them
  (\<open>out_lines\<close>). The rest is \<open>unread\<close>. Line 294 calls \<^verbatim>\<open>cmd.Wait()\<close> before line 295
  waits for the loops, and \<^verbatim>\<open>Wait\<close> closes the reading ends of both pipes as soon as the
  process has exited (\<^verbatim>\<open>os/exec\<close>, StdoutPipe: ``it is incorrect to call Wait before all
  reads from the pipe have completed''), so that what a loop has not read by then it
  never reads; a scanner also stops at a line longer than 64 KiB. No definition of the
  program reads \<open>unread\<close>.

  Both loops write each line to one \<^verbatim>\<open>bytes.Buffer\<close> through the \<^verbatim>\<open>io.MultiWriter\<close> of line
  251, and nothing orders a write of one loop with a write of the other.
  \<^verbatim>\<open>bytes.Buffer\<close> is not safe for concurrent use: \<^verbatim>\<open>Write\<close> takes the length of the buffer,
  extends it and copies the bytes in behind that length, and two writes under way at the
  same time can take the same length. So every line read comes with the way its write to
  the buffer lands: \<open>Landed\<close> when no write of the other loop is under way, and the bytes
  are appended; \<open>Collided b\<close> when the write runs into one of the other loop, and \<open>b\<close> is what
  the buffer holds when the write returns.
\<close>

record cmd =
  Path :: path
  Dir_cmd :: path
  Env :: "string list"

datatype out_line = Stdout string | Stderr string

datatype landing = Landed | Collided bytes

record proc_run =
  out_lines :: "(out_line \<times> landing) list"
  unread :: "out_line list"
  wait_err :: "error option"
  disk_after :: filesystem

text \<open>
  Modelled from the spec: the application record of the \<^verbatim>\<open>storage\<close> package, which is not
  among the sources. An application ``owns zero or more named byte blobs'' and ``string
  metadata''.
\<close>

record App =
  blobs :: "string \<Rightarrow> bytes option"
  metadata :: "string \<Rightarrow> string option"

text \<open>
  Modelled from the spec: the builder \<^verbatim>\<open>builders.Integrated\<close>, whose file is not among the
  sources, as far as its getters show it. The spec's builder ``exposes a configured job
  deadline'' and holds the ``secret map''; here are the job timeout in nanoseconds, the
  directory of the sign files, the secrets in the order in which the \<^verbatim>\<open>range\<close> over the map
  visits them, and the entrypoint's name.
\<close>

record Integrated =
  JobTimeout :: int
  SignFilesDir :: path
  Secrets :: "(string \<times> string) list"
  Entrypoint :: string

record platform =
  tar_NewReader :: "bytes \<Rightarrow> tar_stream"
  TakeLastJob :: "ReturnJob list \<Rightarrow> bytes \<times> error option \<times> ReturnJob list"
  pipe_Copy :: "bytes \<Rightarrow> bytes \<times> error option"
  os_Environ :: "string list"
  temp_dir :: path
  attempt_id :: string
  fault :: "syscall \<Rightarrow> error option"
  strings_ToLower :: "string \<Rightarrow> string"
  entrypoint :: "cmd \<Rightarrow> int \<Rightarrow> filesystem \<Rightarrow> proc_run"

record world =
  queue :: "ReturnJob list"
  app_store :: "string \<Rightarrow> App option"
  disk :: filesystem
  zerolog :: "log_line list"
  os_Stdout :: bytes
  started :: "cmd list"

subsection \<open>File-system calls\<close>

text \<open>\<^verbatim>\<open>os.MkdirTemp\<close> makes the fresh directory \<open>temp_dir\<close>, mode 0700 (448).\<close>

definition os_MkdirTemp :: "platform \<Rightarrow> filesystem \<Rightarrow> error + filesystem" where
  "os_MkdirTemp env fs =
     (case fault env Sys_MkdirTemp of
        Some e \<Rightarrow> Inl e
      | None \<Rightarrow>
          if fs (temp_dir env) \<noteq> None then Inl (ErrorNew ''mkdirtemp: file exists'')
          else Inr (fs(temp_dir env \<mapsto> Dir 448)))"

text \<open>\<^verbatim>\<open>filepath.Abs\<close> of a path that is absolute and clean already.\<close>

definition filepath_Abs :: "platform \<Rightarrow> path \<Rightarrow> error + path" where
  "filepath_Abs env p = (case fault env Sys_Abs of Some e \<Rightarrow> Inl e | None \<Rightarrow> Inr p)"

text \<open>
  \<^verbatim>\<open>dirCopy.Copy(src, dest)\<close> (\<^verbatim>\<open>github.com/otiai10/copy\<close>) of a directory: everything
  below \<open>src\<close>, and \<open>src\<close>'s own mode, is laid over \<open>dest\<close>.
\<close>

definition dirCopy_Copy :: "platform \<Rightarrow> filesystem \<Rightarrow> path \<Rightarrow> path \<Rightarrow> error + filesystem" where
  "dirCopy_Copy env fs src dest =
     (case fault env Sys_CopySignFiles of
        Some e \<Rightarrow> Inl e
      | None \<Rightarrow>
          (case fs src of
             None \<Rightarrow> Inl (ErrorNew (''lstat '' @ path_string src @ '': no such file or directory''))
           | Some (File m b) \<Rightarrow> Inl (ErrorNew (''open '' @ path_string dest @ '': is a directory''))
           | Some (Dir m) \<Rightarrow>
               Inr (\<lambda>p. if prefix dest p
                         then (case fs (src @ drop (length dest) p) of
                                 Some n \<Rightarrow> Some n
                               | None \<Rightarrow> fs p)
                         else fs p)))"

text \<open>
  \<^verbatim>\<open>os.MkdirAll(path, perm)\<close>: a path that exists is left alone when it is a directory and
  is an error when it is a file; otherwise the parent is made first, then the directory.
  The recursion runs on the reversed path, from the path up towards the root.
\<close>

fun MkdirAll_up :: "filesystem \<Rightarrow> string list \<Rightarrow> 32 word \<Rightarrow> error + filesystem" where
  "MkdirAll_up fs [] perm = Inr fs"
| "MkdirAll_up fs (c # up) perm =
     (case fs (rev (c # up)) of
        Some (Dir m) \<Rightarrow> Inr fs
      | Some (File m b) \<Rightarrow>
          Inl (ErrorNew (''mkdir '' @ path_string (rev (c # up)) @ '': not a directory''))
      | None \<Rightarrow>
          (case MkdirAll_up fs up perm of
             Inl e \<Rightarrow> Inl e
           | Inr fs' \<Rightarrow> Inr (fs'(rev (c # up) \<mapsto> Dir perm))))"

definition os_MkdirAll :: "platform \<Rightarrow> filesystem \<Rightarrow> path \<Rightarrow> 32 word \<Rightarrow> error + filesystem" where
  "os_MkdirAll env fs p perm =
     (case fault env (Sys_MkdirAll p) of
        Some e \<Rightarrow> Inl e
      | None \<Rightarrow> MkdirAll_up fs (rev p) perm)"

definition is_dir :: "filesystem \<Rightarrow> path \<Rightarrow> bool" where
  "is_dir fs p = (p = [] \<or> (case fs p of Some (Dir m) \<Rightarrow> True | _ \<Rightarrow> False))"

text \<open>
  \<^verbatim>\<open>os.OpenFile(path, O_CREATE|O_WRONLY|O_TRUNC, perm)\<close>, and \<^verbatim>\<open>os.Create\<close>, which is the
  same call with mode 0666 (438): an existing file is emptied and keeps its mode, a new file
  needs its parent directory.
\<close>

definition open_trunc :: "filesystem \<Rightarrow> path \<Rightarrow> 32 word \<Rightarrow> error + filesystem" where
  "open_trunc fs p perm =
     (if is_dir fs p then Inl (ErrorNew (''open '' @ path_string p @ '': is a directory''))
      else (case fs p of
              Some (File m b) \<Rightarrow> Inr (fs(p \<mapsto> File m []))
            | _ \<Rightarrow>
                if is_dir fs (butlast p) then Inr (fs(p \<mapsto> File perm []))
                else Inl (ErrorNew (''open '' @ path_string p @ '': no such file or directory''))))"

definition os_OpenFile :: "platform \<Rightarrow> filesystem \<Rightarrow> path \<Rightarrow> 32 word \<Rightarrow> error + filesystem" where
  "os_OpenFile env fs p perm =
     (case fault env (Sys_OpenFile p) of Some e \<Rightarrow> Inl e | None \<Rightarrow> open_trunc fs p perm)"

definition os_Create :: "platform \<Rightarrow> filesystem \<Rightarrow> path \<Rightarrow> error + filesystem" where
  "os_Create env fs p =
     (case fault env (Sys_Create p) of Some e \<Rightarrow> Inl e | None \<Rightarrow> open_trunc fs p 438)"

text \<open>Appending bytes to an open file.\<close>

definition write_file :: "filesystem \<Rightarrow> path \<Rightarrow> bytes \<Rightarrow> filesystem" where
  "write_file fs p b =
     (case fs p of Some (File m old) \<Rightarrow> fs(p \<mapsto> File m (old @ b)) | _ \<Rightarrow> fs)"

definition os_Stat :: "platform \<Rightarrow> filesystem \<Rightarrow> path \<Rightarrow> error + node" where
  "os_Stat env fs p =
     (case fault env (Sys_Stat p) of
        Some e \<Rightarrow> Inl e
      | None \<Rightarrow>
          (case fs p of
             None \<Rightarrow> Inl (ErrorNew (''stat '' @ path_string p @ '': no such file or directory''))
           | Some n \<Rightarrow> Inr n))"

definition os_Open :: "platform \<Rightarrow> filesystem \<Rightarrow> path \<Rightarrow> error + node" where
  "os_Open env fs p =
     (case fault env (Sys_Open p) of
        Some e \<Rightarrow> Inl e
      | None \<Rightarrow>
          (case fs p of
             None \<Rightarrow> Inl (ErrorNew (''open '' @ path_string p @ '': no such file or directory''))
           | Some n \<Rightarrow> Inr n))"

definition os_ReadFile :: "platform \<Rightarrow> filesystem \<Rightarrow> path \<Rightarrow> error + bytes" where
  "os_ReadFile env fs p =
     (case fault env (Sys_ReadFile p) of
        Some e \<Rightarrow> Inl e
      | None \<Rightarrow>
          (case fs p of
             None \<Rightarrow> Inl (ErrorNew (''open '' @ path_string p @ '': no such file or directory''))
           | Some (Dir m) \<Rightarrow> Inl (ErrorNew (''read '' @ path_string p @ '': is a directory''))
           | Some (File m b) \<Rightarrow> Inr b))"

text \<open>\<^verbatim>\<open>os.RemoveAll(path)\<close> removes the path and everything below it.\<close>

definition os_RemoveAll :: "filesystem \<Rightarrow> path \<Rightarrow> filesystem" where
  "os_RemoveAll fs p = (\<lambda>q. if prefix p q then None else fs q)"

subsection \<open>The application store\<close>

text \<open>
  Modelled from the spec: \<^verbatim>\<open>GetFile\<close> of the absent application record; it hands out a
  blob the application owns and fails for one it does not have.
\<close>

definition App_GetFile :: "platform \<Rightarrow> App \<Rightarrow> string \<Rightarrow> error + bytes" where
  "App_GetFile env app name =
     (case fault env (Sys_GetFile name) of
        Some e \<Rightarrow> Inl e
      | None \<Rightarrow>
          (case blobs app name of
             None \<Rightarrow> Inl (ErrorNew (''open '' @ name @ '': no such file or directory''))
           | Some b \<Rightarrow> Inr b))"

text \<open>
  Modelled from the spec: \<^verbatim>\<open>SetFile\<close> of the absent application record; the worker ``writes
  the produced artifact'' to the application under the name. It reads the open file to its
  end; a directory cannot be read.
\<close>

definition App_SetFile :: "platform \<Rightarrow> App \<Rightarrow> string \<Rightarrow> node \<Rightarrow> error + App" where
  "App_SetFile env app name n =
     (case fault env (Sys_SetFile name) of
        Some e \<Rightarrow> Inl e
      | None \<Rightarrow>
          (case n of
             Dir m \<Rightarrow> Inl (ErrorNew ''read: is a directory'')
           | File m b \<Rightarrow> Inr (app\<lparr>blobs := (blobs app)(name \<mapsto> b)\<rparr>)))"

text \<open>
  Modelled from the spec: \<^verbatim>\<open>SetString\<close> of the absent application record; it stores a string
  of the application's metadata under the name.
\<close>

definition App_SetString :: "platform \<Rightarrow> App \<Rightarrow> string \<Rightarrow> string \<Rightarrow> error + App" where
  "App_SetString env app name v =
     (case fault env (Sys_SetString name) of
        Some e \<Rightarrow> Inl e
      | None \<Rightarrow> Inr (app\<lparr>metadata := (metadata app)(name \<mapsto> v)\<rparr>))"

section \<open>\<^verbatim>\<open>builders/integrated_job.go\<close>: ProcessIntegratedJob\<close>

subsection \<open>Unpacking the archive into the sandbox (lines 162 to 193)\<close>

text \<open>\<^verbatim>\<open>io.Copy(file, tr)\<close>: the payload the archive holds goes into the file; the copy ends with
  the error that ended the payload, if any.\<close>

definition io_Copy_file :: "platform \<Rightarrow> filesystem \<Rightarrow> path \<Rightarrow> tar_entry \<Rightarrow> error option \<times> filesystem" where
  "io_Copy_file env fs p e =
     (case fault env (Sys_Write p) of
        Some err \<Rightarrow> (Some err, fs)
      | None \<Rightarrow> (payload_err e, write_file fs p (payload e)))"

text \<open>
  The loop over the entries. \<open>ending\<close> is the error of the \<^verbatim>\<open>tr.Next()\<close> after the last
  entry. The target of an entry is \<^verbatim>\<open>filepath.Join(workDir, header.Name)\<close>; the loop has no
  other use of the name. The directory mode 0755 is 493.
\<close>

fun extract_entries ::
    "platform \<Rightarrow> path \<Rightarrow> tar_entry list \<Rightarrow> error \<Rightarrow> filesystem \<Rightarrow> error option \<times> filesystem" where
  "extract_entries env workDir [] ending fs =
     (if ending = io_EOF then (None, fs) else (Some (WithMessage ending ''read tar''), fs))"
| "extract_entries env workDir (e # es) ending fs =
     (let targetPath = filepath_Join workDir (Name (header e)) in
      if Typeflag (header e) = tar_TypeDir then
        (case os_MkdirAll env fs targetPath (FileMode (Mode (header e))) of
           Inl err \<Rightarrow> (Some (WithMessage err (''mkdir '' @ Name (header e))), fs)
         | Inr fs1 \<Rightarrow> extract_entries env workDir es ending fs1)
      else
        (case os_MkdirAll env fs (filepath_Dir targetPath) 493 of
           Inl err \<Rightarrow> (Some (WithMessage err (''mkdir parent '' @ path_string targetPath)), fs)
         | Inr fs1 \<Rightarrow>
             (case os_OpenFile env fs1 targetPath (FileMode (Mode (header e))) of
                Inl err \<Rightarrow> (Some (WithMessage err (''create file '' @ Name (header e))), fs1)
              | Inr fs2 \<Rightarrow>
                  (case io_Copy_file env fs2 targetPath e of
                     (Some err, fs3) \<Rightarrow>
                       (Some (WithMessage err (''write file '' @ Name (header e))), fs3)
                   | (None, fs3) \<Rightarrow> extract_entries env workDir es ending fs3))))"

definition extract_archive :: "platform \<Rightarrow> path \<Rightarrow> bytes \<Rightarrow> filesystem \<Rightarrow> error option \<times> filesystem" where
  "extract_archive env workDir archive fs =
     extract_entries env workDir (entries (tar_NewReader env archive))
       (stream_end (tar_NewReader env archive)) fs"

subsection \<open>The environment and the command (lines 216 to 230)\<close>

definition signEnv :: "string list \<Rightarrow> (string \<times> string) list \<Rightarrow> string list" where
  "signEnv environ secretsMap =
     (foldl (\<lambda>env (key, val). env @ [key @ ''='' @ val]) environ secretsMap
        @ [''PYTHONUNBUFFERED=1'']) @ [''INTEGRATED_BUILDER=1'']"

definition sign_cmd :: "platform \<Rightarrow> Integrated \<Rightarrow> path \<Rightarrow> cmd" where
  "sign_cmd env integrated workDir =
     \<lparr>Path = filepath_Join workDir (Entrypoint integrated),
      Dir_cmd = workDir,
      Env = signEnv (os_Environ env) (Secrets integrated)\<rparr>"

subsection \<open>Building the sandbox and starting the script (lines 151 to 244)\<close>

definition cmd_Start :: "platform \<Rightarrow> filesystem \<Rightarrow> cmd \<Rightarrow> error option" where
  "cmd_Start env fs c =
     (case fault env Sys_Start of
        Some e \<Rightarrow> Some e
      | None \<Rightarrow>
          (case fs (Path c) of
             Some (File m b) \<Rightarrow> None
           | Some (Dir m) \<Rightarrow> Some (ErrorNew (''fork/exec '' @ path_string (Path c) @ '': permission denied''))
           | None \<Rightarrow> Some (ErrorNew (''fork/exec '' @ path_string (Path c) @ '': no such file or directory''))))"

text \<open>The copy of the application's unsigned file into the open \<^verbatim>\<open>unsigned.ipa\<close>.\<close>

definition copy_unsigned :: "platform \<Rightarrow> filesystem \<Rightarrow> path \<Rightarrow> bytes \<Rightarrow> error + filesystem" where
  "copy_unsigned env fs p b =
     (case fault env Sys_CopyUnsigned of
        Some e \<Rightarrow> Inl e
      | None \<Rightarrow> Inr (write_file fs p b))"

text \<open>
  From \<^verbatim>\<open>filepath.Abs\<close> to \<^verbatim>\<open>cmd.Start()\<close>: the error returned, or the work directory, the
  application and the command started; beside it the file system as the steps left it.
\<close>

definition stage_sandbox ::
    "platform \<Rightarrow> Integrated \<Rightarrow> bytes \<Rightarrow> string \<Rightarrow> (string \<Rightarrow> App option) \<Rightarrow> filesystem
       \<Rightarrow> (error + path \<times> App \<times> cmd) \<times> filesystem" where
  "stage_sandbox env integrated archive appId apps fs =
     (case filepath_Abs env (temp_dir env) of
        Inl err \<Rightarrow> (Inl (WithMessage err ''get work dir absolute path''), fs)
      | Inr workDir \<Rightarrow>
     (case dirCopy_Copy env fs (SignFilesDir integrated) workDir of
        Inl err \<Rightarrow> (Inl (WithMessage err ''copy sign files''), fs)
      | Inr fs1 \<Rightarrow>
     (case extract_archive env workDir archive fs1 of
        (Some err, fs2) \<Rightarrow> (Inl err, fs2)
      | (None, fs2) \<Rightarrow>
     (case apps appId of
        None \<Rightarrow> (Inl (ErrorNew (''app not found: '' @ appId)), fs2)
      | Some app \<Rightarrow>
     (case App_GetFile env app ''unsigned'' of
        Inl err \<Rightarrow> (Inl (WithMessage err ''get unsigned file''), fs2)
      | Inr unsignedFile \<Rightarrow>
     (case os_Create env fs2 (filepath_Join workDir ''unsigned.ipa'') of
        Inl err \<Rightarrow> (Inl (WithMessage err ''create unsigned.ipa''), fs2)
      | Inr fs3 \<Rightarrow>
     (case copy_unsigned env fs3 (filepath_Join workDir ''unsigned.ipa'') unsignedFile of
        Inl err \<Rightarrow> (Inl (WithMessage err ''copy unsigned.ipa''), fs3)
      | Inr fs4 \<Rightarrow>
     (case fault env Sys_StdoutPipe of
        Some err \<Rightarrow> (Inl (WithMessage err ''create stdout pipe''), fs4)
      | None \<Rightarrow>
     (case fault env Sys_StderrPipe of
        Some err \<Rightarrow> (Inl (WithMessage err ''create stderr pipe''), fs4)
      | None \<Rightarrow>
     (case cmd_Start env fs4 (sign_cmd env integrated workDir) of
        Some err \<Rightarrow> (Inl (WithMessage err ''start sign script''), fs4)
      | None \<Rightarrow> (Inr (workDir, app, sign_cmd env integrated workDir), fs4)))))))))))"

subsection \<open>Draining the two streams (lines 246 to 292)\<close>

text \<open>
  \<^verbatim>\<open>strings.ToLower\<close> lowers letters by the Unicode tables of the Go library; it is the
  parameter \<open>strings_ToLower\<close> of the platform. On a string of ASCII bytes it is
  \<open>ToLower\<close> below, which lowers the letters A to Z.
  \<^verbatim>\<open>strings.Contains(s, sub)\<close> is \<open>sublist sub s\<close>.
\<close>

definition lower_byte :: "char \<Rightarrow> char" where
  "lower_byte c =
     (case map_of (zip ''ABCDEFGHIJKLMNOPQRSTUVWXYZ'' ''abcdefghijklmnopqrstuvwxyz'') c of
        Some l \<Rightarrow> l
      | None \<Rightarrow> c)"

definition ToLower :: "string \<Rightarrow> string" where
  "ToLower s = map lower_byte s"

definition strings_Contains :: "string \<Rightarrow> string \<Rightarrow> bool" where
  "strings_Contains s sub = sublist sub s"

text \<open>The condition under which a line of standard output is logged, as the source writes it.\<close>

definition logged_stdout :: "platform \<Rightarrow> string \<Rightarrow> bool" where
  "logged_stdout env line =
     (let lineLower = strings_ToLower env line in
      strings_Contains lineLower ''error'' \<or>
      strings_Contains lineLower ''failed'' \<or>
      strings_Contains lineLower ''exception'' \<or>
      strings_Contains lineLower ''two-factor authentication (2fa) code'' \<or>
      strings_Contains lineLower ''please enter'' \<or>
      (strings_Contains lineLower ''2fa'' \<and>
         (strings_Contains lineLower ''code'' \<or> strings_Contains lineLower ''required'')))"

text \<open>
  \<^verbatim>\<open>outputBuffer.Write(p)\<close>, the first writer of the \<^verbatim>\<open>io.MultiWriter\<close>: the bytes are
  appended, unless the write collides with a write of the other loop.
\<close>

definition buffer_Write :: "bytes \<Rightarrow> bytes \<Rightarrow> landing \<Rightarrow> bytes" where
  "buffer_Write buf p how = (case how of Landed \<Rightarrow> buf @ p | Collided b \<Rightarrow> b)"

text \<open>
  What the two scanner loops write: \<open>outputBuffer\<close>, the live sink \<^verbatim>\<open>os.Stdout\<close>, and the
  log. The two loops run side by side; \<open>out_lines\<close> gives the order in which they take
  their lines. A write to \<^verbatim>\<open>os.Stdout\<close> is one system call, and a log event goes to the
  log's writer in one piece, so these two sinks receive every line whole.
\<close>

record sinks =
  outputBuffer :: bytes
  live :: bytes
  events :: "log_line list"

fun scan_line :: "platform \<Rightarrow> sinks \<Rightarrow> out_line \<times> landing \<Rightarrow> sinks" where
  "scan_line env s (Stdout line, how) =
     s\<lparr>outputBuffer := buffer_Write (outputBuffer s) (line @ ''\<newline>'') how,
       live := live s @ line @ ''\<newline>'',
       events := events s @
         (if logged_stdout env line then [Log InfoLevel ''sign script'' [(''line'', line)]] else [])\<rparr>"
| "scan_line env s (Stderr line, how) =
     s\<lparr>outputBuffer := buffer_Write (outputBuffer s) (line @ ''\<newline>'') how,
       live := live s @ line @ ''\<newline>'',
       events := events s @ [Log WarnLevel ''sign script stderr'' [(''line'', line)]]\<rparr>"

definition drain :: "platform \<Rightarrow> (out_line \<times> landing) list \<Rightarrow> sinks" where
  "drain env ls = foldl (scan_line env) \<lparr>outputBuffer = [], live = [], events = []\<rparr> ls"

subsection \<open>Storing the result (lines 303 to 335)\<close>

definition store_result ::
    "platform \<Rightarrow> path \<Rightarrow> string \<Rightarrow> App \<Rightarrow> string \<Rightarrow> world \<Rightarrow> error option \<times> world" where
  "store_result env workDir appId app returnJobId w =
     (case os_Stat env (disk w) (filepath_Join workDir ''signed.ipa'') of
        Inl err \<Rightarrow> (Some (WithMessage err ''signed app not found''), w)
      | Inr info \<Rightarrow>
     (case os_Open env (disk w) (filepath_Join workDir ''signed.ipa'') of
        Inl err \<Rightarrow> (Some (WithMessage err ''open signed app''), w)
      | Inr signedFile \<Rightarrow>
     (case App_SetFile env app ''signed'' signedFile of
        Inl err \<Rightarrow> (Some (WithMessage err ''set signed file''), w)
      | Inr app1 \<Rightarrow>
          (let w1 = w\<lparr>app_store := (app_store w)(appId \<mapsto> app1)\<rparr>;
               w2 =
                 (case os_ReadFile env (disk w1) (filepath_Join workDir ''bundle_id.txt'') of
                    Inl err \<Rightarrow> w1
                  | Inr bundleIdBytes \<Rightarrow>
                      (case App_SetString env app1 ''bundle_id'' (TrimWhitespace bundleIdBytes) of
                         Inl err \<Rightarrow>
                           w1\<lparr>zerolog := zerolog w1 @
                             [Log WarnLevel ''set bundle id'' [(''error'', Error err)]]\<rparr>
                       | Inr app2 \<Rightarrow> w1\<lparr>app_store := (app_store w1)(appId \<mapsto> app2)\<rparr>))
           in (case DeleteById (queue w2) returnJobId of
                 (deleted, jobs') \<Rightarrow>
                   (None,
                    w2\<lparr>queue := jobs',
                       zerolog := zerolog w2 @
                         (if deleted then []
                          else [Log WarnLevel ''unable to delete return job''
                                  [(''job_id'', returnJobId)]])\<rparr>))))))"

subsection \<open>The job attempt (lines 144 to 336)\<close>

text \<open>
  Lines 246 to 335: the script runs, the two loops take its lines, \<^verbatim>\<open>cmd.Wait()\<close> returns and
  the loops end; the capture buffer is read after that.
\<close>

definition supervise ::
    "platform \<Rightarrow> Integrated \<Rightarrow> path \<Rightarrow> string \<Rightarrow> App \<Rightarrow> cmd \<Rightarrow> string \<Rightarrow> world
       \<Rightarrow> error option \<times> world" where
  "supervise env integrated workDir appId app c returnJobId w =
     (let run = entrypoint env c (JobTimeout integrated) (disk w);
          s = drain env (out_lines run);
          w1 = w\<lparr>disk := disk_after run,
                 started := started w @ [c],
                 os_Stdout := os_Stdout w @ live s,
                 zerolog := zerolog w @ events s\<rparr>
      in case wait_err run of
           Some err \<Rightarrow>
             (Some (WithMessage (WithMessage (ErrorNew (outputBuffer s)) (Error err)) ''sign script''),
              w1\<lparr>zerolog := zerolog w1 @
                    [Log ErrorLevel ''sign script failed''
                       [(''error'', Error err), (''output'', outputBuffer s)]]\<rparr>)
         | None \<Rightarrow> store_result env workDir appId app returnJobId w1)"

text \<open>
  The function literal of lines 144 to 336. Once the temporary directory exists, the
  deferred \<^verbatim>\<open>os.RemoveAll(tempDir)\<close> runs on every way out.
\<close>

definition sign_job ::
    "platform \<Rightarrow> Integrated \<Rightarrow> bytes \<Rightarrow> string \<Rightarrow> string \<Rightarrow> world \<Rightarrow> error option \<times> world" where
  "sign_job env integrated archive appId returnJobId w =
     (case os_MkdirTemp env (disk w) of
        Inl err \<Rightarrow> (Some (WithMessage err ''make temp dir''), w)
      | Inr fs0 \<Rightarrow>
          (case
             (case stage_sandbox env integrated archive appId (app_store w) fs0 of
                (Inl err, fs1) \<Rightarrow> (Some err, w\<lparr>disk := fs1\<rparr>)
              | (Inr (workDir, app, c), fs1) \<Rightarrow>
                  supervise env integrated workDir appId app c returnJobId (w\<lparr>disk := fs1\<rparr>))
           of (r, w') \<Rightarrow> (r, w'\<lparr>disk := os_RemoveAll (disk w') (temp_dir env)\<rparr>)))"

subsection \<open>The whole function\<close>

text \<open>Lines 338 to 348: a failed attempt deletes the queue entry, then returns the error.\<close>

definition conclude :: "platform \<Rightarrow> string \<Rightarrow> error option \<times> world \<Rightarrow> error option outcome \<times> world" where
  "conclude env returnJobId rw =
     (case rw of
        (Some err, w) \<Rightarrow>
          (let w1 = w\<lparr>zerolog := zerolog w @
                     [Log ErrorLevel ''integrated sign job failed''
                        [(''error'', Error err), (''job_id'', attempt_id env)]]\<rparr>
           in case DeleteById (queue w1) returnJobId of
                (deleted, jobs') \<Rightarrow>
                  (Return (Some err),
                   w1\<lparr>queue := jobs',
                      zerolog := zerolog w1 @
                        (if deleted then []
                         else [Log WarnLevel ''unable to delete failed return job''
                                 [(''job_id'', returnJobId)]])\<rparr>))
      | (None, w) \<Rightarrow>
          (Return None,
           w\<lparr>zerolog := zerolog w @
                [Log InfoLevel ''integrated sign job completed'' [(''job_id'', attempt_id env)]]\<rparr>))"

text \<open>
  Lines 79 to 119. \<^verbatim>\<open>TakeLastJob\<close> runs in a goroutine that writes the archive into a pipe;
  the function reads the pipe to its end into \<open>archiveBuffer\<close>. In the model
  \<^verbatim>\<open>TakeLastJob\<close> has run when the read starts: it leaves the bytes it wrote, its error and
  the queue; \<open>pipe_Copy\<close> is what \<^verbatim>\<open>io.Copy(&archiveBuffer, pr)\<close> makes of the bytes written,
  the bytes that arrived and the error of the read. (A pipe whose writer is closed with
  \<^verbatim>\<open>Close\<close> hands over all bytes and ends with \<^verbatim>\<open>io.EOF\<close>, which \<^verbatim>\<open>io.Copy\<close> does not report.)
\<close>

definition ProcessIntegratedJob ::
    "platform \<Rightarrow> Integrated \<Rightarrow> error \<Rightarrow> world \<Rightarrow> error option outcome \<times> world" where
  "ProcessIntegratedJob env integrated errNotFound w =
     (case TakeLastJob env (queue w) of
        (written, archiveErr, jobs1) \<Rightarrow>
     (let w1 = w\<lparr>queue := jobs1,
                 zerolog := zerolog w @
                   (case archiveErr of
                      None \<Rightarrow> []
                    | Some err \<Rightarrow>
                        if errors_Is err errNotFound
                        then [Log DebugLevel ''no job found for integrated builder'' []]
                        else [Log ErrorLevel ''take last job'' [(''error'', Error err)]])\<rparr>
      in case pipe_Copy env written of
        (archiveBuffer, Some err) \<Rightarrow>
          (let w2 = w1\<lparr>zerolog := zerolog w1 @
                       [Log ErrorLevel ''read job archive'' [(''error'', Error err)]]\<rparr>
           in case extractJobIdFromArchive (tar_NewReader env) archiveBuffer of
                Panic p \<Rightarrow> (Panic p, w2)
              | Return returnJobId \<Rightarrow>
                  if returnJobId \<noteq> '''' then
                    (case DeleteById (queue w2) returnJobId of
                       (deleted, jobs2) \<Rightarrow>
                         (Return (Some err),
                          w2\<lparr>queue := jobs2,
                             zerolog := zerolog w2 @
                               (if deleted
                                then [Log InfoLevel ''cleaned up job after archive read error''
                                        [(''job_id'', returnJobId)]]
                                else [])\<rparr>))
                  else (Return (Some err), w2))
      | (archiveBuffer, None) \<Rightarrow>
          (case archiveErr of
             Some aerr \<Rightarrow>
               if errors_Is aerr errNotFound then (Return None, w1)
               else (Return (Some aerr), w1)
           | None \<Rightarrow>
               (case extractJobIdFromArchive (tar_NewReader env) archiveBuffer of
                  Panic p \<Rightarrow> (Panic p, w1)
                | Return returnJobId \<Rightarrow>
                    if returnJobId = ''''
                    then (Return (Some (ErrorNew ''job id not found in archive'')), w1)
                    else
                      (case GetById (queue w1) returnJobId of
                         None \<Rightarrow>
                           (Return (Some (ErrorNew (''return job not found: '' @ returnJobId))), w1)
                       | Some returnJob \<Rightarrow>
                           conclude env returnJobId
                             (sign_job env integrated archiveBuffer (AppId returnJob) returnJobId
                                (w1\<lparr>zerolog := zerolog w1 @
                                      [Log InfoLevel ''running integrated sign job''
                                         [(''job_id'', attempt_id env),
                                          (''app_id'', AppId returnJob)]]\<rparr>)))))))"

section \<open>Concrete inputs\<close>

text \<open>
  The inputs at which the theorems below are instantiated: a queue entry, three observation
  sequences for the wait loop, and a small platform for ProcessIntegratedJob with a builder
  directory holding \<^verbatim>\<open>sign.py\<close>, one application with an unsigned file, an archive of three
  entries and two stub entrypoints in the manner of the spec's end-to-end scenarios.
\<close>

definition job_7 :: ReturnJob where
  "job_7 = \<lparr>Id_job = ''job-7'', AppId = ''app-1'', TwoFactorCode = ''''\<rparr>"

text \<open>The entry is there for two polls, then gone, and the application is signed.\<close>

definition polls_signed :: "nat \<Rightarrow> poll" where
  "polls_signed k =
     (if k < 2 then \<lparr>entry = Some job_7, IsSigned = Inr False, status = (False, True), lag = 0\<rparr>
      else \<lparr>entry = None, IsSigned = Inr True, status = (False, False), lag = 0\<rparr>)"

text \<open>The sign job stays pending: the worker never takes it, no queue entry ever exists.\<close>

definition polls_pending :: "nat \<Rightarrow> poll" where
  "polls_pending k = \<lparr>entry = None, IsSigned = Inr False, status = (True, True), lag = 0\<rparr>"

text \<open>No queue entry, and \<^verbatim>\<open>app.IsSigned()\<close> fails.\<close>

definition polls_stat_fails :: "nat \<Rightarrow> poll" where
  "polls_stat_fails k =
     \<lparr>entry = None, IsSigned = Inl (ErrorNew ''stat signed: permission denied''),
      status = (False, False), lag = 0\<rparr>"

text \<open>
  A buffer of one 512-byte header block in the GNU format: the name \<^verbatim>\<open>id.txt\<close>, mode 0644,
  the size field in base-256 notation with value \<open>2^62\<close>, type \<^verbatim>\<open>'0'\<close> (a regular file)
  and the matching checksum 006310; no payload follows. \<^verbatim>\<open>tar.Reader.Next\<close> accepts the
  block and returns its header; the reader's view of the buffer is \<open>huge_id_view\<close>.
\<close>

definition huge_id_block :: bytes where
  "huge_id_block =
     ''id.txt'' @ replicate 94 (CHR 0x00)
     @ ''0000644'' @ [CHR 0x00] @ ''0000000'' @ [CHR 0x00] @ ''0000000'' @ [CHR 0x00]
     @ [CHR 0x80, CHR 0x00, CHR 0x00, CHR 0x00, CHR 0x40, CHR 0x00, CHR 0x00, CHR 0x00,
        CHR 0x00, CHR 0x00, CHR 0x00, CHR 0x00]
     @ ''00000000000'' @ [CHR 0x00]
     @ ''006310'' @ [CHR 0x00, CHR 0x20]
     @ ''0'' @ replicate 100 (CHR 0x00)
     @ ''ustar '' @ [CHR 0x20, CHR 0x00]
     @ replicate 247 (CHR 0x00)"

definition huge_id_view :: tar_stream where
  "huge_id_view =
     \<lparr>entries =
        [\<lparr>header = \<lparr>Name = ''id.txt'', Size = 2 ^ 62, Typeflag = CHR ''0'', Mode = 420\<rparr>,
          payload = [], payload_err = Some io_ErrUnexpectedEOF\<rparr>],
      stream_end = io_ErrUnexpectedEOF\<rparr>"

definition huge_id_reader :: "bytes \<Rightarrow> tar_stream" where
  "huge_id_reader b = huge_id_view"

definition demo_view :: tar_stream where
  "demo_view =
     \<lparr>entries =
        [\<lparr>header = \<lparr>Name = ''id.txt'', Size = 6, Typeflag = CHR ''0'', Mode = 420\<rparr>,
          payload = ''job-7\<newline>'', payload_err = None\<rparr>,
         \<lparr>header = \<lparr>Name = ''conf/'', Size = 0, Typeflag = CHR ''5'', Mode = 493\<rparr>,
          payload = [], payload_err = None\<rparr>,
         \<lparr>header = \<lparr>Name = ''conf/args.txt'', Size = 2, Typeflag = CHR ''0'', Mode = 420\<rparr>,
          payload = ''-a'', payload_err = None\<rparr>],
      stream_end = io_EOF\<rparr>"

definition demo_reader :: "bytes \<Rightarrow> tar_stream" where
  "demo_reader b = demo_view"

text \<open>What the reader makes of an archive cut off inside its third entry.\<close>

definition cut_view :: tar_stream where
  "cut_view =
     \<lparr>entries =
        [\<lparr>header = \<lparr>Name = ''id.txt'', Size = 6, Typeflag = CHR ''0'', Mode = 420\<rparr>,
          payload = ''job-7\<newline>'', payload_err = None\<rparr>,
         \<lparr>header = \<lparr>Name = ''conf/'', Size = 0, Typeflag = CHR ''5'', Mode = 493\<rparr>,
          payload = [], payload_err = None\<rparr>],
      stream_end = io_ErrUnexpectedEOF\<rparr>"

definition cut_reader :: "bytes \<Rightarrow> tar_stream" where
  "cut_reader b = cut_view"

definition demo_disk :: filesystem where
  "demo_disk =
     [[''tmp''] \<mapsto> Dir 511, [''builder''] \<mapsto> Dir 493,
      [''builder'', ''sign.py''] \<mapsto> File 493 ''#!python'']"

definition demo_sandbox :: path where
  "demo_sandbox = [''tmp'', ''ios-signer-integrated-1'']"

definition sign_ok :: "cmd \<Rightarrow> int \<Rightarrow> filesystem \<Rightarrow> proc_run" where
  "sign_ok c deadline fs =
     \<lparr>out_lines = [(Stdout ''signing'', Landed), (Stdout ''Please enter the 6 digit code'', Landed),
                   (Stderr ''warn: slow'', Landed)],
      unread = [],
      wait_err = None,
      disk_after = fs(Dir_cmd c @ [''signed.ipa''] \<mapsto> File 420 ''SIGNED'',
                      Dir_cmd c @ [''bundle_id.txt''] \<mapsto> File 420 '' com.example.app\<newline>'')\<rparr>"

definition sign_fails :: "cmd \<Rightarrow> int \<Rightarrow> filesystem \<Rightarrow> proc_run" where
  "sign_fails c deadline fs =
     \<lparr>out_lines = [(Stdout ''signing'', Landed), (Stderr ''ERROR: cert expired'', Landed)],
      unread = [],
      wait_err = Some (ErrorNew ''exit status 1''),
      disk_after = fs\<rparr>"

text \<open>
  The stub entrypoint of the failing scenario when it exits before its error stream has
  been read: it writes \<^verbatim>\<open>ERROR: cert expired\<close> to its error stream and exits with status 1,
  and \<^verbatim>\<open>cmd.Wait()\<close> closes the pipes with the line still in the pipe.
\<close>

definition sign_exits_early :: "cmd \<Rightarrow> int \<Rightarrow> filesystem \<Rightarrow> proc_run" where
  "sign_exits_early c deadline fs =
     \<lparr>out_lines = [],
      unread = [Stderr ''ERROR: cert expired''],
      wait_err = Some (ErrorNew ''exit status 1''),
      disk_after = fs\<rparr>"

text \<open>
  Two lines read at the same moment, one from each stream, on an empty capture buffer: the
  write of the error line lands, and the write of \<^verbatim>\<open>signing\<close>, which began before that one
  ended, leaves the buffer with its own bytes alone.
\<close>

definition racing_lines :: "(out_line \<times> landing) list" where
  "racing_lines =
     [(Stderr ''ERROR: cert expired'', Landed), (Stdout ''signing'', Collided ''signing\<newline>'')]"

definition take_job_7 :: "ReturnJob list \<Rightarrow> bytes \<times> error option \<times> ReturnJob list" where
  "take_job_7 jobs = (''archive bytes'', None, jobs @ [job_7])"

definition pipe_through :: "bytes \<Rightarrow> bytes \<times> error option" where
  "pipe_through b = (b, None)"

definition no_fault :: "syscall \<Rightarrow> error option" where
  "no_fault s = None"

definition demo_platform :: "(cmd \<Rightarrow> int \<Rightarrow> filesystem \<Rightarrow> proc_run) \<Rightarrow> platform" where
  "demo_platform script =
     \<lparr>tar_NewReader = demo_reader,
      TakeLastJob = take_job_7,
      pipe_Copy = pipe_through,
      os_Environ = [''PATH=/usr/bin''],
      temp_dir = demo_sandbox,
      attempt_id = ''integrated-1'',
      fault = no_fault,
      strings_ToLower = ToLower,
      entrypoint = script\<rparr>"

definition ErrNotFound :: error where
  "ErrNotFound = ErrorNew ''not found''"

text \<open>A queue with nothing pending.\<close>

definition take_nothing :: "ReturnJob list \<Rightarrow> bytes \<times> error option \<times> ReturnJob list" where
  "take_nothing jobs = ([], Some ErrNotFound, jobs)"

definition idle_platform :: platform where
  "idle_platform = (demo_platform sign_ok)\<lparr>TakeLastJob := take_nothing\<rparr>"

text \<open>A read of the pipe that breaks off after 1536 bytes.\<close>

definition pipe_breaks :: "bytes \<Rightarrow> bytes \<times> error option" where
  "pipe_breaks b = (take 1536 b, Some (ErrorNew ''read pipe: input/output error''))"

definition broken_pipe_platform :: platform where
  "broken_pipe_platform =
     (demo_platform sign_ok)\<lparr>tar_NewReader := cut_reader, pipe_Copy := pipe_breaks\<rparr>"

definition demo_builder :: Integrated where
  "demo_builder =
     \<lparr>JobTimeout = 900000000000, SignFilesDir = [''builder''],
      Secrets = [(''SECRET_KEY'', ''k3y''), (''SECRET_URL'', ''http://localhost:8080'')],
      Entrypoint = ''sign.py''\<rparr>"

definition demo_app :: App where
  "demo_app = \<lparr>blobs = [''unsigned'' \<mapsto> ''IPA''], metadata = Map.empty\<rparr>"

definition demo_world :: world where
  "demo_world =
     \<lparr>queue = [], app_store = [''app-1'' \<mapsto> demo_app], disk = demo_disk,
      zerolog = [], os_Stdout = [], started = []\<rparr>"

text \<open>
  Two entries of an archive: a directory \<^verbatim>\<open>lib/\<close>, and a file whose name is rooted,
  \<^verbatim>\<open>/etc/x\<close>.
\<close>

definition lib_entry :: tar_entry where
  "lib_entry =
     \<lparr>header = \<lparr>Name = ''lib/'', Size = 0, Typeflag = CHR ''5'', Mode = 493\<rparr>,
      payload = [], payload_err = None\<rparr>"

definition rooted_entry :: tar_entry where
  "rooted_entry =
     \<lparr>header = \<lparr>Name = ''/etc/x'', Size = 3, Typeflag = CHR ''0'', Mode = 420\<rparr>,
      payload = ''k=v'', payload_err = None\<rparr>"

text \<open>An archive with one entry whose name climbs out of the sandbox.\<close>

definition evil_entry :: tar_entry where
  "evil_entry =
     \<lparr>header = \<lparr>Name = ''../evil.sh'', Size = 4, Typeflag = CHR ''0'', Mode = 493\<rparr>,
      payload = ''#!sh'', payload_err = None\<rparr>"


text \<open>An entrypoint that exits with status 0 and leaves no \<^verbatim>\<open>signed.ipa\<close>.\<close>

definition sign_forgets :: "cmd \<Rightarrow> int \<Rightarrow> filesystem \<Rightarrow> proc_run" where
  "sign_forgets c deadline fs = \<lparr>out_lines = [(Stdout ''done'', Landed)], unread = [], wait_err = None, disk_after = fs\<rparr>"

text \<open>The job archive with the climbing entry after \<^verbatim>\<open>id.txt\<close>.\<close>

definition evil_view :: tar_stream where
  "evil_view =
     \<lparr>entries =
        [\<lparr>header = \<lparr>Name = ''id.txt'', Size = 6, Typeflag = CHR ''0'', Mode = 420\<rparr>,
          payload = ''job-7\<newline>'', payload_err = None\<rparr>,
         evil_entry],
      stream_end = io_EOF\<rparr>"

definition evil_reader :: "bytes \<Rightarrow> tar_stream" where
  "evil_reader b = evil_view"

definition evil_platform :: platform where
  "evil_platform = (demo_platform sign_ok)\<lparr>tar_NewReader := evil_reader\<rparr>"

section \<open>Properties of extractJobIdFromArchive\<close>

text \<open>
  Where no \<^verbatim>\<open>id.txt\<close> entry declares a size that cannot be allocated, the function returns:
  the empty string, or the trimmed payload of an \<^verbatim>\<open>id.txt\<close> entry that is complete.
\<close>

lemma scan_id_txt_returns:
  assumes "\<forall>e \<in> set es. Name (header e) = ''id.txt'' \<longrightarrow>
             0 \<le> Size (header e) \<and> Size (header e) \<le> maxAlloc"
  shows "scan_id_txt es = Return '''' \<or>
    (\<exists>e \<in> set es. Name (header e) = ''id.txt'' \<and> nat (Size (header e)) \<le> length (payload e) \<and>
       scan_id_txt es = Return (TrimWhitespace (take (nat (Size (header e))) (payload e))))"
  using assms
proof (induction es)
  case Nil
  show ?case by simp
next
  case (Cons e es)
  show ?case
  proof (cases "Name (header e) = ''id.txt''")
    case True
    with Cons.prems have "0 \<le> Size (header e) \<and> Size (header e) \<le> maxAlloc" by simp
    with True show ?thesis
      by (simp add: make_bytes_def io_ReadFull_def)
  next
    case False
    with Cons show ?thesis by auto
  qed
qed

lemma extractJobIdFromArchive_returns:
  assumes "\<forall>e \<in> set (entries (newReader archiveBuffer)). Name (header e) = ''id.txt'' \<longrightarrow>
             0 \<le> Size (header e) \<and> Size (header e) \<le> maxAlloc"
  shows "\<exists>s. extractJobIdFromArchive newReader archiveBuffer = Return s"
  using scan_id_txt_returns [OF assms]
  by (auto simp: extractJobIdFromArchive_def)

lemma huge_id_block_length: "length huge_id_block = 512"
  by (simp add: huge_id_block_def)

text \<open>
  Claim C5 says that extractJobIdFromArchive never fails or panics, whatever the buffer
  holds. On the one-block buffer \<open>huge_id_block\<close>, whose \<^verbatim>\<open>id.txt\<close> header declares \<open>2^62\<close>
  bytes, the allocation \<^verbatim>\<open>make([]byte, header.Size)\<close> panics before anything is read.
\<close>

theorem extractJobIdFromArchive_huge_size_panics:
  "extractJobIdFromArchive huge_id_reader huge_id_block
     = Panic ''runtime error: makeslice: len out of range''"
  by (simp add: extractJobIdFromArchive_def huge_id_block_length huge_id_reader_def
      huge_id_view_def make_bytes_def maxAlloc_def)

section \<open>Properties of Prompt2FA\<close>

lemma find_Store_TwoFactorCode:
  "find (\<lambda>j. AppId j = appId) jobs = Some job \<Longrightarrow>
   find (\<lambda>j. AppId j = appId) (Store_TwoFactorCode jobs (Id_job job) code)
     = Some (job\<lparr>TwoFactorCode := code\<rparr>)"
  by (induction jobs) (auto simp: Store_TwoFactorCode_def)

lemma TrimSpace_example: "TrimSpace '' 123456 \<newline>'' = ''123456''"
  by (simp add: TrimSpace_def leading_space_def space_runes_def)

text \<open>
  Claim C10. Whenever a line can be read from standard input, Prompt2FA returns the line
  with its white space trimmed and no error, for every application id. When the queue has
  no entry for the application id, the queue is left as it was and nothing is logged: the
  code is stored nowhere. When it has one, that entry's two-factor slot holds the trimmed
  code afterwards, and no entry is added or removed.
\<close>

theorem Prompt2FA_returns_code:
  "bufio_ReadString input end_err = Inr line \<Longrightarrow>
   returned (Prompt2FA jobs input end_err appId) = Inr (TrimSpace line) \<and>
   (case GetByAppId jobs appId of
      None \<Rightarrow>
        jobs_after (Prompt2FA jobs input end_err appId) = jobs \<and>
        logged (Prompt2FA jobs input end_err appId) = []
    | Some job \<Rightarrow>
        GetByAppId (jobs_after (Prompt2FA jobs input end_err appId)) appId
          = Some (job\<lparr>TwoFactorCode := TrimSpace line\<rparr>) \<and>
        map Id_job (jobs_after (Prompt2FA jobs input end_err appId)) = map Id_job jobs)"
  by (auto simp: Prompt2FA_def Let_def GetByAppId_def find_Store_TwoFactorCode
      split: option.splits) (simp add: Store_TwoFactorCode_def)

text \<open>
  The operator types \<^verbatim>\<open> 123456 \<close> and a line feed. For \<^verbatim>\<open>app-2\<close>, which has no entry in the
  queue, the code comes back trimmed and the queue is unchanged; for \<^verbatim>\<open>app-1\<close> the entry
  \<^verbatim>\<open>job-7\<close> receives it.
\<close>

theorem Prompt2FA_returns_code_witness:
  "bufio_ReadString '' 123456 \<newline>'' io_EOF = Inr '' 123456 \<newline>'' \<and>
   GetByAppId [job_7] ''app-2'' = None \<and>
   returned (Prompt2FA [job_7] '' 123456 \<newline>'' io_EOF ''app-2'') = Inr ''123456'' \<and>
   jobs_after (Prompt2FA [job_7] '' 123456 \<newline>'' io_EOF ''app-2'') = [job_7] \<and>
   logged (Prompt2FA [job_7] '' 123456 \<newline>'' io_EOF ''app-2'') = [] \<and>
   GetByAppId [job_7] ''app-1'' = Some job_7 \<and>
   returned (Prompt2FA [job_7] '' 123456 \<newline>'' io_EOF ''app-1'') = Inr ''123456'' \<and>
   GetByAppId (jobs_after (Prompt2FA [job_7] '' 123456 \<newline>'' io_EOF ''app-1'')) ''app-1''
     = Some (job_7\<lparr>TwoFactorCode := ''123456''\<rparr>)"
proof -
  have r: "bufio_ReadString '' 123456 \<newline>'' io_EOF = Inr '' 123456 \<newline>''"
    by (simp add: bufio_ReadString_def)
  have g2: "GetByAppId [job_7] ''app-2'' = None"
    by (simp add: GetByAppId_def job_7_def)
  have g1: "GetByAppId [job_7] ''app-1'' = Some job_7"
    by (simp add: GetByAppId_def job_7_def)
  show ?thesis
    using Prompt2FA_returns_code [OF r, of "[job_7]" "''app-2''"]
      Prompt2FA_returns_code [OF r, of "[job_7]" "''app-1''"] r g1 g2
    by (simp add: TrimSpace_example)
qed

section \<open>Properties of the wait loop\<close>

declare wait_loop.simps [simp del]

lemma wait_body_Inl:
  "wait_body appId p st = Inl r \<Longrightarrow>
   entry p = None \<and>
   (case IsSigned p of
      Inl err \<Rightarrow> fst r = Some (WithMessage err ''check signed status'')
    | Inr True \<Rightarrow> fst r = None
    | Inr False \<Rightarrow>
        status p = (False, False) \<and>
        fst r = Some (ErrorNew ''job completed but app is not signed''))"
  by (auto simp: wait_body_def Let_def split: option.splits sum.splits bool.splits if_splits prod.splits)

lemma wait_body_Inr:
  "wait_body appId p st = Inr st' \<Longrightarrow>
   entry p \<noteq> None \<or> (IsSigned p = Inr False \<and> status p \<noteq> (False, False))"
  by (auto simp: wait_body_def Let_def split: option.splits sum.splits bool.splits if_splits prod.splits)

text \<open>
  Claim C1, as amended. The wait loop ends, for every application id, every deadline and
  everything it may observe, and its result is fixed by the first poll \<open>n\<close> that ends it.
  Every earlier poll found the queue entry, or found no entry, no signed artifact and a job
  status that is pending or existing, and went on to sleep. Then exactly one of four things
  happens. The deadline has passed before poll \<open>n\<close>: the loop fails with the timeout error,
  whether or not an entry exists. Otherwise poll \<open>n\<close> finds no entry, and: \<^verbatim>\<open>IsSigned\<close> fails,
  and the loop fails with that error as ``check signed status''; or the application is
  signed, and the loop succeeds; or it is not signed and the job status is neither pending
  nor existing, and the loop fails with ``job completed but app is not signed''. Success is
  reported only from a poll that found the signed artifact.
\<close>

theorem wait_loop_outcomes:
  "\<exists>n\<ge>k.
     (\<forall>i. k \<le> i \<and> i < n \<longrightarrow>
        entry (polls i) \<noteq> None \<or> (IsSigned (polls i) = Inr False \<and> status (polls i) \<noteq> (False, False))) \<and>
     (maxWaitTime \<le> elapsed st + (\<Sum>i = k..<n. pollInterval + int (lag (polls i))) \<and>
        fst (wait_loop appId polls maxWaitTime k st)
          = Some (ErrorNew ''timeout waiting for job to be processed'')
      \<or>
      elapsed st + (\<Sum>i = k..<n. pollInterval + int (lag (polls i))) < maxWaitTime \<and>
        entry (polls n) = None \<and>
        (case IsSigned (polls n) of
           Inl err \<Rightarrow>
             fst (wait_loop appId polls maxWaitTime k st)
               = Some (WithMessage err ''check signed status'')
         | Inr True \<Rightarrow> fst (wait_loop appId polls maxWaitTime k st) = None
         | Inr False \<Rightarrow>
             status (polls n) = (False, False) \<and>
             fst (wait_loop appId polls maxWaitTime k st)
               = Some (ErrorNew ''job completed but app is not signed'')))"
proof (induction appId polls maxWaitTime k st rule: wait_loop.induct)
  case (1 appId polls maxWaitTime k st)
  show ?case
  proof (cases "elapsed st < maxWaitTime")
    case False
    then have "fst (wait_loop appId polls maxWaitTime k st)
        = Some (ErrorNew ''timeout waiting for job to be processed'')"
      by (simp add: wait_loop.simps)
    with False show ?thesis
      by (intro exI [of _ k]) auto
  next
    case True
    show ?thesis
    proof (cases "wait_body appId (polls k) st")
      case (Inl r)
      with True have "wait_loop appId polls maxWaitTime k st = r"
        by (simp add: wait_loop.simps)
      with wait_body_Inl [OF Inl] True show ?thesis
        by (intro exI [of _ k]) auto
    next
      case (Inr st')
      let ?st = "sleep (polls k) st'"
      have el: "elapsed ?st = elapsed st + pollInterval + int (lag (polls k))"
        using wait_body_elapsed [OF Inr] by (simp add: sleep_def)
      have res: "wait_loop appId polls maxWaitTime k st = wait_loop appId polls maxWaitTime (Suc k) ?st"
        using True Inr by (simp add: wait_loop.simps)
      from "1.IH" [OF True Inr] obtain n where n: "Suc k \<le> n"
        and before: "\<forall>i. Suc k \<le> i \<and> i < n \<longrightarrow>
          entry (polls i) \<noteq> None \<or> (IsSigned (polls i) = Inr False \<and> status (polls i) \<noteq> (False, False))"
        and out: "maxWaitTime \<le> elapsed ?st + (\<Sum>i = Suc k..<n. pollInterval + int (lag (polls i))) \<and>
            fst (wait_loop appId polls maxWaitTime (Suc k) ?st)
              = Some (ErrorNew ''timeout waiting for job to be processed'')
          \<or>
          elapsed ?st + (\<Sum>i = Suc k..<n. pollInterval + int (lag (polls i))) < maxWaitTime \<and>
            entry (polls n) = None \<and>
            (case IsSigned (polls n) of
               Inl err \<Rightarrow>
                 fst (wait_loop appId polls maxWaitTime (Suc k) ?st)
                   = Some (WithMessage err ''check signed status'')
             | Inr True \<Rightarrow> fst (wait_loop appId polls maxWaitTime (Suc k) ?st) = None
             | Inr False \<Rightarrow>
                 status (polls n) = (False, False) \<and>
                 fst (wait_loop appId polls maxWaitTime (Suc k) ?st)
                   = Some (ErrorNew ''job completed but app is not signed''))"
        by blast
      have sum: "elapsed ?st + (\<Sum>i = Suc k..<n. pollInterval + int (lag (polls i)))
          = elapsed st + (\<Sum>i = k..<n. pollInterval + int (lag (polls i)))"
        using n by (simp add: el sum.atLeast_Suc_lessThan)
      have before': "\<forall>i. k \<le> i \<and> i < n \<longrightarrow>
          entry (polls i) \<noteq> None \<or> (IsSigned (polls i) = Inr False \<and> status (polls i) \<noteq> (False, False))"
      proof (intro allI impI)
        fix i assume i: "k \<le> i \<and> i < n"
        show "entry (polls i) \<noteq> None \<or> (IsSigned (polls i) = Inr False \<and> status (polls i) \<noteq> (False, False))"
        proof (cases "i = k")
          case True
          with wait_body_Inr [OF Inr] show ?thesis by simp
        next
          case False
          with i have "Suc k \<le> i \<and> i < n" by simp
          with before show ?thesis by blast
        qed
      qed
      have "k \<le> n" using n by simp
      with before' out show ?thesis
        unfolding res sum by (intro exI [of _ n]) simp
    qed
  qed
qed

text \<open>
  A run with a deadline of 15 minutes: the entry \<^verbatim>\<open>job-7\<close> is seen at polls 0 and 1, at
  poll 2 it is gone and the application is signed; the loop reports success.
\<close>

theorem wait_loop_outcomes_witness:
  "entry (polls_signed 0) \<noteq> None \<and> entry (polls_signed 1) \<noteq> None \<and>
   entry (polls_signed 2) = None \<and> IsSigned (polls_signed 2) = Inr True \<and>
   fst (wait_loop ''app-1'' polls_signed 900000000000 0 (wait_start ''app-1'')) = None"
  using wait_loop_outcomes [where k = 0 and polls = polls_signed and maxWaitTime = 900000000000
      and st = "wait_start ''app-1''" and appId = "''app-1''"]
  by (simp add: wait_loop.simps wait_body_def wait_start_def polls_signed_def job_7_def
      check_2FA_def checkInterval_def sleep_def pollInterval_def Let_def)

text \<open>
  Claim C1 as it is stated names three outcomes and lets the timeout happen only while the
  entry still exists. With a deadline of one second: when \<^verbatim>\<open>IsSigned\<close> fails the loop ends
  with a fourth outcome, the ``check signed status'' error; and when the sign job stays
  pending, so that no queue entry exists at any poll, the loop sleeps on (it does not
  report ``completed but not signed'') and ends with the timeout.
\<close>

theorem wait_loop_other_outcomes:
  "fst (wait_loop ''app-1'' polls_stat_fails 1000000000 0 (wait_start ''app-1''))
     = Some (WithMessage (ErrorNew ''stat signed: permission denied'') ''check signed status'') \<and>
   fst (wait_loop ''app-1'' polls_pending 1000000000 0 (wait_start ''app-1''))
     = Some (ErrorNew ''timeout waiting for job to be processed'') \<and>
   entry (polls_pending 0) = None \<and> entry (polls_pending 1) = None \<and>
   IsSigned (polls_pending 0) = Inr False \<and> IsSigned (polls_pending 1) = Inr False"
  by (simp add: wait_loop.simps wait_body_def wait_start_def polls_stat_fails_def
      polls_pending_def sleep_def pollInterval_def)

section \<open>Properties of ProcessIntegratedJob\<close>

lemmas demo_eval =
  ProcessIntegratedJob_def demo_platform_def demo_world_def demo_builder_def
  take_job_7_def pipe_through_def no_fault_def demo_reader_def
  extractJobIdFromArchive_def demo_view_def make_bytes_def maxAlloc_def io_ReadFull_def
  TrimWhitespace_def TrimSpace_def leading_space_def space_runes_def GetById_def job_7_def
  conclude_def sign_job_def os_MkdirTemp_def demo_disk_def demo_sandbox_def stage_sandbox_def
  filepath_Abs_def dirCopy_Copy_def extract_archive_def filepath_Join_def tar_TypeDir_def
  os_MkdirAll_def filepath_Dir_def os_OpenFile_def open_trunc_def is_dir_def io_Copy_file_def
  write_file_def FileMode_def demo_app_def App_GetFile_def os_Create_def copy_unsigned_def
  cmd_Start_def sign_cmd_def signEnv_def supervise_def sign_ok_def sign_fails_def
  store_result_def os_Stat_def os_Open_def
  App_SetFile_def os_ReadFile_def App_SetString_def DeleteById_def Let_def
  drain_def buffer_Write_def io_EOF_def

lemma GetById_DeleteById: "GetById (snd (DeleteById jobs rid)) rid = None"
  by (simp add: GetById_def DeleteById_def find_None_iff)

lemma conclude_failed:
  "fst (conclude env rid (Some err, w)) = Return (Some err) \<and>
   GetById (queue (snd (conclude env rid (Some err, w)))) rid = None"
  using GetById_DeleteById [of "queue w" rid]
  by (auto simp: conclude_def Let_def split: prod.splits)

lemma conclude_done: "fst (conclude env rid (None, w)) = Return None"
  by (simp add: conclude_def)

text \<open>
  Claim C2. The job id is determined when extractJobIdFromArchive returns a non-empty id:
  at line 105 after a failed read of the archive, at line 122 after a complete read when
  \<^verbatim>\<open>TakeLastJob\<close> reported no error. Whenever ProcessIntegratedJob then returns an error, the
  queue it leaves has no entry for that id. In particular, when the read of the archive
  fails, the id found in the partial buffer is the one whose entry is deleted, and the
  error returned is the read error.
\<close>

theorem failed_job_leaves_no_queue_entry:
  assumes take: "TakeLastJob env (queue w) = (written, archiveErr, jobs1)"
    and pipe: "pipe_Copy env written = (archiveBuffer, readErr)"
    and reached: "readErr \<noteq> None \<or> archiveErr = None"
    and id: "extractJobIdFromArchive (tar_NewReader env) archiveBuffer = Return returnJobId"
    and known: "returnJobId \<noteq> ''''"
    and failed: "fst (ProcessIntegratedJob env integrated errNotFound w) = Return (Some err)"
  shows "GetById (queue (snd (ProcessIntegratedJob env integrated errNotFound w))) returnJobId = None
    \<and> (case readErr of Some e \<Rightarrow> err = e | None \<Rightarrow> True)"
proof (cases readErr)
  case (Some e)
  with take pipe id known failed GetById_DeleteById [of jobs1 returnJobId] show ?thesis
    by (auto simp: ProcessIntegratedJob_def Let_def split: prod.splits)
next
  case None
  with reached have noerr: "archiveErr = None" by simp
  show ?thesis
  proof (cases "GetById jobs1 returnJobId")
    case gone: None
    with None noerr take pipe id known show ?thesis
      by (simp add: ProcessIntegratedJob_def Let_def)
  next
    case (Some returnJob)
    define w1 where "w1 = w\<lparr>queue := jobs1\<rparr>\<lparr>zerolog := zerolog w @
        [Log InfoLevel ''running integrated sign job''
           [(''job_id'', attempt_id env), (''app_id'', AppId returnJob)]]\<rparr>"
    have pij: "ProcessIntegratedJob env integrated errNotFound w =
        conclude env returnJobId (sign_job env integrated archiveBuffer (AppId returnJob) returnJobId w1)"
      using None noerr take pipe id known Some
      by (simp add: ProcessIntegratedJob_def Let_def w1_def)
    obtain r w' where sj: "sign_job env integrated archiveBuffer (AppId returnJob) returnJobId w1 = (r, w')"
      by (cases "sign_job env integrated archiveBuffer (AppId returnJob) returnJobId w1")
    show ?thesis
    proof (cases r)
      case ok: None
      with failed pij sj conclude_done [of env returnJobId w'] show ?thesis by simp
    next
      case (Some e)
      with pij sj conclude_failed [of env returnJobId e w'] None show ?thesis by simp
    qed
  qed
qed

text \<open>
  Two failing attempts. The stub entrypoint exits with status 1: the entry \<^verbatim>\<open>job-7\<close>, which
  \<^verbatim>\<open>TakeLastJob\<close> left in the queue, is gone when the error comes back. The read of the pipe
  breaks off: the partial buffer still yields \<^verbatim>\<open>job-7\<close>, its entry is deleted and the read
  error is returned.
\<close>

theorem failed_job_leaves_no_queue_entry_witness:
  "GetById [job_7] ''job-7'' = Some job_7 \<and>
   fst (ProcessIntegratedJob (demo_platform sign_fails) demo_builder ErrNotFound demo_world)
     = Return (Some (WithMessage (WithMessage (ErrorNew ''signing\<newline>ERROR: cert expired\<newline>'')
                                    ''exit status 1'') ''sign script'')) \<and>
   GetById (queue (snd (ProcessIntegratedJob (demo_platform sign_fails) demo_builder ErrNotFound
                          demo_world))) ''job-7'' = None \<and>
   fst (ProcessIntegratedJob broken_pipe_platform demo_builder ErrNotFound demo_world)
     = Return (Some (ErrorNew ''read pipe: input/output error'')) \<and>
   GetById (queue (snd (ProcessIntegratedJob broken_pipe_platform demo_builder ErrNotFound
                          demo_world))) ''job-7'' = None"
proof -
  let ?e1 = "WithMessage (WithMessage (ErrorNew ''signing\<newline>ERROR: cert expired\<newline>'')
                            ''exit status 1'') ''sign script''"
  let ?e2 = "ErrorNew ''read pipe: input/output error''"
  have t1: "TakeLastJob (demo_platform sign_fails) (queue demo_world)
      = (''archive bytes'', None, [job_7])"
    by (simp add: demo_platform_def take_job_7_def demo_world_def)
  have p1: "pipe_Copy (demo_platform sign_fails) ''archive bytes'' = (''archive bytes'', None)"
    by (simp add: demo_platform_def pipe_through_def)
  have i1: "extractJobIdFromArchive (tar_NewReader (demo_platform sign_fails)) ''archive bytes''
      = Return ''job-7''"
    by (simp add: demo_eval)
  have f1: "fst (ProcessIntegratedJob (demo_platform sign_fails) demo_builder ErrNotFound demo_world)
      = Return (Some ?e1)"
    by (simp add: demo_eval)
  have t2: "TakeLastJob broken_pipe_platform (queue demo_world)
      = (''archive bytes'', None, [job_7])"
    by (simp add: broken_pipe_platform_def demo_platform_def take_job_7_def demo_world_def)
  have p2: "pipe_Copy broken_pipe_platform ''archive bytes'' = (''archive bytes'', Some ?e2)"
    by (simp add: broken_pipe_platform_def pipe_breaks_def)
  have i2: "extractJobIdFromArchive (tar_NewReader broken_pipe_platform) ''archive bytes''
      = Return ''job-7''"
    by (simp add: broken_pipe_platform_def cut_reader_def cut_view_def demo_eval)
  have f2: "fst (ProcessIntegratedJob broken_pipe_platform demo_builder ErrNotFound demo_world)
      = Return (Some ?e2)"
    by (simp add: broken_pipe_platform_def cut_reader_def cut_view_def pipe_breaks_def demo_eval)
  have g: "GetById [job_7] ''job-7'' = Some job_7"
    by (simp add: GetById_def job_7_def)
  from failed_job_leaves_no_queue_entry [OF t1 p1 _ i1 _ f1]
    failed_job_leaves_no_queue_entry [OF t2 p2 _ i2 _ f2] f1 f2 g
  show ?thesis by simp
qed

text \<open>
  Claim C7. When \<^verbatim>\<open>TakeLastJob\<close> fails and its error is the not-found error (the read of the
  pipe ends without an error of its own), ProcessIntegratedJob returns \<^verbatim>\<open>nil\<close>. The queue
  is as \<^verbatim>\<open>TakeLastJob\<close> left it, and the applications, the file system, the processes
  started and the standard output are as they were before the call.
\<close>

theorem no_pending_job_is_idle:
  assumes take: "TakeLastJob env (queue w) = (written, Some err, jobs1)"
    and nf: "errors_Is err errNotFound"
    and pipe: "snd (pipe_Copy env written) = None"
  shows "fst (ProcessIntegratedJob env integrated errNotFound w) = Return None \<and>
    queue (snd (ProcessIntegratedJob env integrated errNotFound w)) = jobs1 \<and>
    app_store (snd (ProcessIntegratedJob env integrated errNotFound w)) = app_store w \<and>
    disk (snd (ProcessIntegratedJob env integrated errNotFound w)) = disk w \<and>
    started (snd (ProcessIntegratedJob env integrated errNotFound w)) = started w \<and>
    os_Stdout (snd (ProcessIntegratedJob env integrated errNotFound w)) = os_Stdout w"
proof -
  obtain buf where "pipe_Copy env written = (buf, None)"
    using pipe by (cases "pipe_Copy env written") simp
  with take nf show ?thesis
    by (simp add: ProcessIntegratedJob_def Let_def)
qed

text \<open>
  Nothing is pending: \<^verbatim>\<open>TakeLastJob\<close> writes nothing, reports not-found and leaves the empty
  queue as it is; ProcessIntegratedJob returns \<^verbatim>\<open>nil\<close> and changes nothing.
\<close>

theorem no_pending_job_is_idle_witness:
  "TakeLastJob idle_platform (queue demo_world) = ([], Some ErrNotFound, []) \<and>
   errors_Is ErrNotFound ErrNotFound \<and>
   fst (ProcessIntegratedJob idle_platform demo_builder ErrNotFound demo_world) = Return None \<and>
   queue (snd (ProcessIntegratedJob idle_platform demo_builder ErrNotFound demo_world)) = [] \<and>
   app_store (snd (ProcessIntegratedJob idle_platform demo_builder ErrNotFound demo_world))
     = app_store demo_world \<and>
   disk (snd (ProcessIntegratedJob idle_platform demo_builder ErrNotFound demo_world))
     = disk demo_world"
proof -
  have t: "TakeLastJob idle_platform (queue demo_world) = ([], Some ErrNotFound, [])"
    by (simp add: idle_platform_def take_nothing_def demo_world_def)
  have n: "errors_Is ErrNotFound ErrNotFound"
    by (simp add: ErrNotFound_def)
  have p: "snd (pipe_Copy idle_platform []) = None"
    by (simp add: idle_platform_def demo_platform_def pipe_through_def)
  from no_pending_job_is_idle [OF t n p, of demo_builder] t n show ?thesis by simp
qed

lemma foldl_secrets:
  "foldl (\<lambda>env (key, val). env @ [key @ ''='' @ val]) environ secretsMap
     = environ @ map (\<lambda>(key, val). key @ ''='' @ val) secretsMap"
proof (induction secretsMap arbitrary: environ)
  case Nil
  show ?case by simp
next
  case (Cons kv rest)
  obtain key val where kv: "kv = (key, val)" by (cases kv)
  show ?case
    using Cons [of "environ @ [key @ ''='' @ val]"] by (simp add: kv)
qed

lemma signEnv_eq:
  "signEnv environ secretsMap
     = environ @ map (\<lambda>(key, val). key @ ''='' @ val) secretsMap
         @ [''PYTHONUNBUFFERED=1'', ''INTEGRATED_BUILDER=1'']"
  unfolding signEnv_def foldl_secrets by simp

lemma stage_sandbox_cmd:
  "stage_sandbox env integrated archive appId apps fs = (Inr (workDir, app, c), fs') \<Longrightarrow>
   workDir = temp_dir env \<and> c = sign_cmd env integrated (temp_dir env) \<and> apps appId = Some app"
  by (simp add: stage_sandbox_def filepath_Abs_def split: sum.splits option.splits prod.splits)

lemma store_result_started: "started (snd (store_result env workDir appId app rid w)) = started w"
  by (simp add: store_result_def Let_def split: sum.splits option.splits prod.splits)

lemma supervise_started:
  "started (snd (supervise env integrated workDir appId app c rid w)) = started w @ [c]"
  by (simp add: supervise_def Let_def store_result_started split: option.splits)

lemma sign_job_started:
  "started (snd (sign_job env integrated archive appId rid w)) = started w \<or>
   started (snd (sign_job env integrated archive appId rid w))
     = started w @ [sign_cmd env integrated (temp_dir env)]"
proof (cases "os_MkdirTemp env (disk w)")
  case (Inl e)
  then show ?thesis by (simp add: sign_job_def)
next
  case (Inr fs0)
  obtain r fs1 where st: "stage_sandbox env integrated archive appId (app_store w) fs0 = (r, fs1)"
    by (cases "stage_sandbox env integrated archive appId (app_store w) fs0")
  show ?thesis
  proof (cases r)
    case (Inl e)
    with Inr st show ?thesis by (simp add: sign_job_def)
  next
    case right: (Inr x)
    obtain workDir app c where x: "x = (workDir, app, c)" by (cases x)
    from stage_sandbox_cmd [of env integrated archive appId "app_store w" fs0 workDir app c fs1]
      st right x have c: "c = sign_cmd env integrated (temp_dir env)" by simp
    from Inr st right x c
      supervise_started [of env integrated workDir appId app c rid "w\<lparr>disk := fs1\<rparr>"]
    show ?thesis by (auto simp: sign_job_def split: prod.splits)
  qed
qed

lemma conclude_started: "started (snd (conclude env rid rw)) = started (snd rw)"
  by (cases rw) (simp add: conclude_def Let_def split: option.splits prod.splits)

text \<open>
  Claim C9. A call of ProcessIntegratedJob starts at most one process. When it starts one,
  the executable is the entrypoint inside the sandbox, the working directory is the
  sandbox root (the temporary directory of the attempt), and the environment is the
  environment of the worker's own process, followed by one \<^verbatim>\<open>key=value\<close> entry for every
  pair of the builder's secrets, followed by \<^verbatim>\<open>PYTHONUNBUFFERED=1\<close> and
  \<^verbatim>\<open>INTEGRATED_BUILDER=1\<close>.
\<close>

theorem entrypoint_started_in_sandbox:
  "started (snd (ProcessIntegratedJob env integrated errNotFound w)) = started w \<or>
   started (snd (ProcessIntegratedJob env integrated errNotFound w))
     = started w @
         [\<lparr>Path = filepath_Join (temp_dir env) (Entrypoint integrated),
           Dir_cmd = temp_dir env,
           Env = os_Environ env
                   @ map (\<lambda>(key, val). key @ ''='' @ val) (Secrets integrated)
                   @ [''PYTHONUNBUFFERED=1'', ''INTEGRATED_BUILDER=1'']\<rparr>]"
proof -
  define Q where "Q s \<longleftrightarrow>
    s = started w \<or> s = started w @ [sign_cmd env integrated (temp_dir env)]" for s
  have same: "Q (started w)" by (simp add: Q_def)
  have sj: "\<And>archive appId rid w0. started w0 = started w \<Longrightarrow>
      Q (started (snd (conclude env rid (sign_job env integrated archive appId rid w0))))"
  proof -
    fix archive appId rid and w0 :: world
    assume "started w0 = started w"
    with sign_job_started [of env integrated archive appId rid w0] show
      "Q (started (snd (conclude env rid (sign_job env integrated archive appId rid w0))))"
      by (auto simp: conclude_started Q_def)
  qed
  have "Q (started (snd (ProcessIntegratedJob env integrated errNotFound w)))"
    by (simp add: ProcessIntegratedJob_def Let_def same sj
        split: prod.splits option.splits outcome.splits)
  then show ?thesis
    unfolding Q_def sign_cmd_def signEnv_eq by simp
qed

text \<open>The stub run starts \<^verbatim>\<open>sign.py\<close> in the sandbox with the two secrets in its environment.\<close>

theorem entrypoint_started_in_sandbox_witness:
  "started (snd (ProcessIntegratedJob (demo_platform sign_ok) demo_builder ErrNotFound demo_world))
     = [\<lparr>Path = [''tmp'', ''ios-signer-integrated-1'', ''sign.py''],
         Dir_cmd = [''tmp'', ''ios-signer-integrated-1''],
         Env = [''PATH=/usr/bin'', ''SECRET_KEY=k3y'', ''SECRET_URL=http://localhost:8080'',
                ''PYTHONUNBUFFERED=1'', ''INTEGRATED_BUILDER=1'']\<rparr>]"
  using entrypoint_started_in_sandbox [of "demo_platform sign_ok" demo_builder ErrNotFound demo_world]
  by (simp add: demo_eval)

lemma Join_simple [simp]:
  "filepath_Join dir ''signed.ipa'' = dir @ [''signed.ipa'']"
  "filepath_Join dir ''bundle_id.txt'' = dir @ [''bundle_id.txt'']"
  "filepath_Join dir ''unsigned.ipa'' = dir @ [''unsigned.ipa'']"
  by (simp_all add: filepath_Join_def)

lemma reaches_script:
  assumes take: "TakeLastJob env (queue w) = (written, None, jobs1)"
    and pipe: "pipe_Copy env written = (archiveBuffer, None)"
    and id: "extractJobIdFromArchive (tar_NewReader env) archiveBuffer = Return returnJobId"
    and known: "returnJobId \<noteq> ''''"
    and job: "GetById jobs1 returnJobId = Some returnJob"
    and tmp: "os_MkdirTemp env (disk w) = Inr fs0"
    and stage: "stage_sandbox env integrated archiveBuffer (AppId returnJob) (app_store w) fs0
                  = (Inr (workDir, app, c), fs1)"
  shows "\<exists>w1. queue w1 = jobs1 \<and> app_store w1 = app_store w \<and> disk w1 = fs1 \<and>
      ProcessIntegratedJob env integrated errNotFound w
        = conclude env returnJobId
            (case supervise env integrated workDir (AppId returnJob) app c returnJobId w1 of
               (r, w') \<Rightarrow> (r, w'\<lparr>disk := os_RemoveAll (disk w') (temp_dir env)\<rparr>))"
proof -
  let ?w1 = "w\<lparr>queue := jobs1,
                 zerolog := zerolog w @
                   [Log InfoLevel ''running integrated sign job''
                      [(''job_id'', attempt_id env), (''app_id'', AppId returnJob)]],
                 disk := fs1\<rparr>"
  have "ProcessIntegratedJob env integrated errNotFound w
        = conclude env returnJobId
            (case supervise env integrated workDir (AppId returnJob) app c returnJobId ?w1 of
               (r, w') \<Rightarrow> (r, w'\<lparr>disk := os_RemoveAll (disk w') (temp_dir env)\<rparr>))"
    using take pipe id known job tmp stage
    by (simp add: ProcessIntegratedJob_def Let_def sign_job_def)
  then show ?thesis
    by (intro exI [of _ ?w1]) simp
qed

lemma conclude_fst: "fst (conclude env rid (r, w)) = Return r"
  by (simp add: conclude_def Let_def split: option.splits prod.splits)

lemma store_result_error_kind:
  "fst (store_result env workDir appId app rid w) = Some e \<Longrightarrow>
   \<exists>cause msg. e = WithMessage cause msg \<and>
     msg \<in> {''signed app not found'', ''open signed app'', ''set signed file''}"
  by (auto simp: store_result_def Let_def split: sum.splits option.splits prod.splits)

text \<open>
  What holds of a failing script on every platform: when \<^verbatim>\<open>cmd.Wait()\<close> reports an error,
  ProcessIntegratedJob returns ``sign script'' wrapped around the process's error text
  wrapped around the capture buffer as the two loops left it; when it reports exit status
  0, the function does not fail with a ``sign script'' error.
\<close>

lemma wait_error_is_composite:
  assumes take: "TakeLastJob env (queue w) = (written, None, jobs1)"
    and pipe: "pipe_Copy env written = (archiveBuffer, None)"
    and id: "extractJobIdFromArchive (tar_NewReader env) archiveBuffer = Return returnJobId"
    and known: "returnJobId \<noteq> ''''"
    and job: "GetById jobs1 returnJobId = Some returnJob"
    and tmp: "os_MkdirTemp env (disk w) = Inr fs0"
    and stage: "stage_sandbox env integrated archiveBuffer (AppId returnJob) (app_store w) fs0
                  = (Inr (workDir, app, c), fs1)"
    and run: "entrypoint env c (JobTimeout integrated) fs1 = run"
  shows "case wait_err run of
      Some err \<Rightarrow>
        fst (ProcessIntegratedJob env integrated errNotFound w)
          = Return (Some (WithMessage (WithMessage (ErrorNew (outputBuffer (drain env (out_lines run))))
                                         (Error err)) ''sign script'')) \<and>
        Error (WithMessage (WithMessage (ErrorNew (outputBuffer (drain env (out_lines run))))
                                         (Error err)) ''sign script'')
          = ''sign script: '' @ Error err @ '': '' @ outputBuffer (drain env (out_lines run))
    | None \<Rightarrow>
        (\<forall>e. fst (ProcessIntegratedJob env integrated errNotFound w)
               \<noteq> Return (Some (WithMessage e ''sign script'')))"
proof -
  from reaches_script [OF take pipe id known job tmp stage, of errNotFound]
  obtain w1 where w1: "disk w1 = fs1"
    and pij: "ProcessIntegratedJob env integrated errNotFound w
        = conclude env returnJobId
            (case supervise env integrated workDir (AppId returnJob) app c returnJobId w1 of
               (r, w') \<Rightarrow> (r, w'\<lparr>disk := os_RemoveAll (disk w') (temp_dir env)\<rparr>))"
    by blast
  show ?thesis
  proof (cases "wait_err run")
    case (Some err)
    have "fst (supervise env integrated workDir (AppId returnJob) app c returnJobId w1)
        = Some (WithMessage (WithMessage (ErrorNew (outputBuffer (drain env (out_lines run))))
                                         (Error err)) ''sign script'')"
      using Some run w1 by (simp add: supervise_def Let_def)
    then have "fst (ProcessIntegratedJob env integrated errNotFound w)
        = Return (Some (WithMessage (WithMessage (ErrorNew (outputBuffer (drain env (out_lines run))))
                                         (Error err)) ''sign script''))"
      unfolding pij by (simp add: conclude_fst case_prod_beta)
    with Some show ?thesis by simp
  next
    case None
    have sup: "supervise env integrated workDir (AppId returnJob) app c returnJobId w1
        = store_result env workDir (AppId returnJob) app returnJobId
            (w1\<lparr>disk := disk_after run, started := started w1 @ [c],
                os_Stdout := os_Stdout w1 @ live (drain env (out_lines run)),
                zerolog := zerolog w1 @ events (drain env (out_lines run))\<rparr>)"
      using None run w1 by (simp add: supervise_def Let_def)
    have "\<forall>e. fst (ProcessIntegratedJob env integrated errNotFound w)
               \<noteq> Return (Some (WithMessage e ''sign script''))"
    proof (intro allI notI)
      fix e
      assume a: "fst (ProcessIntegratedJob env integrated errNotFound w)
               = Return (Some (WithMessage e ''sign script''))"
      then have "fst (supervise env integrated workDir (AppId returnJob) app c returnJobId w1)
          = Some (WithMessage e ''sign script'')"
        unfolding pij by (simp add: conclude_fst case_prod_beta)
      with store_result_error_kind show False
        unfolding sup by fastforce
    qed
    with None show ?thesis by simp
  qed
qed

lemma demo_take:
  "TakeLastJob (demo_platform script) (queue demo_world) = (''archive bytes'', None, [job_7])"
  by (simp add: demo_platform_def take_job_7_def demo_world_def)

lemma demo_pipe: "pipe_Copy (demo_platform script) ''archive bytes'' = (''archive bytes'', None)"
  by (simp add: demo_platform_def pipe_through_def)

lemma demo_id:
  "extractJobIdFromArchive (tar_NewReader (demo_platform script)) ''archive bytes'' = Return ''job-7''"
  by (simp add: demo_eval)

lemma demo_job: "GetById [job_7] ''job-7'' = Some job_7"
  by (simp add: GetById_def job_7_def)

lemma demo_tmp:
  "os_MkdirTemp (demo_platform script) (disk demo_world) = Inr (demo_disk(demo_sandbox \<mapsto> Dir 448))"
  by (simp add: os_MkdirTemp_def demo_platform_def no_fault_def demo_world_def demo_disk_def
      demo_sandbox_def)

lemma demo_stage:
  "stage_sandbox (demo_platform script) demo_builder ''archive bytes'' (AppId job_7)
     (app_store demo_world) (demo_disk(demo_sandbox \<mapsto> Dir 448))
   = (Inr (demo_sandbox, demo_app, sign_cmd (demo_platform script) demo_builder demo_sandbox),
      snd (stage_sandbox (demo_platform script) demo_builder ''archive bytes'' (AppId job_7)
             (app_store demo_world) (demo_disk(demo_sandbox \<mapsto> Dir 448))))"
proof -
  have "fst (stage_sandbox (demo_platform script) demo_builder ''archive bytes'' (AppId job_7)
     (app_store demo_world) (demo_disk(demo_sandbox \<mapsto> Dir 448)))
    = Inr (demo_sandbox, demo_app, sign_cmd (demo_platform script) demo_builder demo_sandbox)"
    by (simp add: demo_eval)
  then show ?thesis by (simp add: prod_eq_iff)
qed

text \<open>
  Claim C6 fails on the code. The stub entrypoint writes \<^verbatim>\<open>ERROR: cert expired\<close> to its error
  stream and exits with status 1 at once. \<^verbatim>\<open>cmd.Wait()\<close> at line 294 sees the exit and closes
  the pipes before the loop on the error stream has read the line, and only then does
  line 295 wait for the loops. ProcessIntegratedJob returns the composite error with the
  process's error text and an empty capture: the text the entrypoint wrote to its error
  stream is not in the failure message.
\<close>

theorem unread_error_text_missing_from_failure:
  "(\<forall>c deadline fs.
      unread (entrypoint (demo_platform sign_exits_early) c deadline fs)
        = [Stderr ''ERROR: cert expired''] \<and>
      wait_err (entrypoint (demo_platform sign_exits_early) c deadline fs)
        = Some (ErrorNew ''exit status 1'')) \<and>
   fst (ProcessIntegratedJob (demo_platform sign_exits_early) demo_builder ErrNotFound demo_world)
     = Return (Some (WithMessage (WithMessage (ErrorNew []) ''exit status 1'') ''sign script'')) \<and>
   Error (WithMessage (WithMessage (ErrorNew []) ''exit status 1'') ''sign script'')
     = ''sign script: exit status 1: '' \<and>
   \<not> sublist ''ERROR: cert expired''
       (Error (WithMessage (WithMessage (ErrorNew []) ''exit status 1'') ''sign script''))"
proof -
  have r: "\<forall>c deadline fs.
      unread (entrypoint (demo_platform sign_exits_early) c deadline fs)
        = [Stderr ''ERROR: cert expired''] \<and>
      wait_err (entrypoint (demo_platform sign_exits_early) c deadline fs)
        = Some (ErrorNew ''exit status 1'')"
    by (simp add: demo_platform_def sign_exits_early_def)
  have n: "\<not> sublist ''ERROR: cert expired'' ''sign script: exit status 1: ''"
    by (simp add: sublist_code)
  from wait_error_is_composite
    [OF demo_take demo_pipe demo_id _ demo_job demo_tmp demo_stage refl,
      of sign_exits_early ErrNotFound] r n
  show ?thesis
    by (simp add: demo_platform_def sign_exits_early_def drain_def)
qed

lemma store_result_missing:
  assumes "disk w (filepath_Join workDir ''signed.ipa'') = None"
  shows "\<exists>e. store_result env workDir appId app rid w
      = (Some (WithMessage e ''signed app not found''), w)"
  using assms by (simp add: store_result_def os_Stat_def split: option.splits)

lemma store_result_stored:
  assumes "disk w (filepath_Join workDir ''signed.ipa'') = Some (File m content)"
    and "fault env (Sys_Stat (filepath_Join workDir ''signed.ipa'')) = None"
    and "fault env (Sys_Open (filepath_Join workDir ''signed.ipa'')) = None"
    and "fault env (Sys_SetFile ''signed'') = None"
  shows "fst (store_result env workDir appId app rid w) = None \<and>
    GetById (queue (snd (store_result env workDir appId app rid w))) rid = None \<and>
    (\<exists>app'. app_store (snd (store_result env workDir appId app rid w)) appId = Some app' \<and>
       blobs app' ''signed'' = Some content \<and>
       (disk w (filepath_Join workDir ''bundle_id.txt'') = None \<longrightarrow> metadata app' = metadata app) \<and>
       (\<forall>m' b. disk w (filepath_Join workDir ''bundle_id.txt'') = Some (File m' b) \<and>
            fault env (Sys_ReadFile (filepath_Join workDir ''bundle_id.txt'')) = None \<and>
            fault env (Sys_SetString ''bundle_id'') = None \<longrightarrow>
          metadata app' ''bundle_id'' = Some (TrimWhitespace b)))"
  using assms GetById_DeleteById [of "queue w" rid]
  by (auto simp: store_result_def os_Stat_def os_Open_def App_SetFile_def os_ReadFile_def
      App_SetString_def Let_def split: option.splits sum.splits prod.splits node.splits)

text \<open>
  Claim C4. Take an attempt that gets as far as starting the entrypoint, and let the
  entrypoint exit with status 0, leaving the file system \<open>fs2\<close>. If \<open>fs2\<close> has no
  \<^verbatim>\<open>signed.ipa\<close> in the sandbox, ProcessIntegratedJob fails with ``signed app not found'', the
  applications are unchanged and the queue entry of the job is deleted. If \<^verbatim>\<open>signed.ipa\<close> is
  a file there (and the calls that read it and store it do not fail for reasons of their
  own), ProcessIntegratedJob returns \<^verbatim>\<open>nil\<close>, the application has the file's content as
  its \<^verbatim>\<open>signed\<close> blob, and the queue entry of the job is deleted; if moreover
  \<^verbatim>\<open>bundle_id.txt\<close> is a file in the sandbox, the application's \<^verbatim>\<open>bundle_id\<close> is its
  content with the white space trimmed, and if there is no such file the application's
  strings are left as they were and no error is raised.
\<close>

theorem exit_status_zero_stores_signed_app:
  assumes take: "TakeLastJob env (queue w) = (written, None, jobs1)"
    and pipe: "pipe_Copy env written = (archiveBuffer, None)"
    and id: "extractJobIdFromArchive (tar_NewReader env) archiveBuffer = Return returnJobId"
    and known: "returnJobId \<noteq> ''''"
    and job: "GetById jobs1 returnJobId = Some returnJob"
    and tmp: "os_MkdirTemp env (disk w) = Inr fs0"
    and stage: "stage_sandbox env integrated archiveBuffer (AppId returnJob) (app_store w) fs0
                  = (Inr (workDir, app, c), fs1)"
    and exit0: "wait_err (entrypoint env c (JobTimeout integrated) fs1) = None"
    and after: "disk_after (entrypoint env c (JobTimeout integrated) fs1) = fs2"
  shows
    "(fs2 (filepath_Join workDir ''signed.ipa'') = None \<longrightarrow>
        (\<exists>e. fst (ProcessIntegratedJob env integrated errNotFound w)
               = Return (Some (WithMessage e ''signed app not found''))) \<and>
        GetById (queue (snd (ProcessIntegratedJob env integrated errNotFound w))) returnJobId = None \<and>
        app_store (snd (ProcessIntegratedJob env integrated errNotFound w)) = app_store w) \<and>
     (\<forall>m content.
        fs2 (filepath_Join workDir ''signed.ipa'') = Some (File m content) \<and>
        fault env (Sys_Stat (filepath_Join workDir ''signed.ipa'')) = None \<and>
        fault env (Sys_Open (filepath_Join workDir ''signed.ipa'')) = None \<and>
        fault env (Sys_SetFile ''signed'') = None \<longrightarrow>
        fst (ProcessIntegratedJob env integrated errNotFound w) = Return None \<and>
        GetById (queue (snd (ProcessIntegratedJob env integrated errNotFound w))) returnJobId = None \<and>
        (\<exists>app'. app_store (snd (ProcessIntegratedJob env integrated errNotFound w)) (AppId returnJob)
                   = Some app' \<and>
           blobs app' ''signed'' = Some content \<and>
           (fs2 (filepath_Join workDir ''bundle_id.txt'') = None \<longrightarrow> metadata app' = metadata app) \<and>
           (\<forall>m' b. fs2 (filepath_Join workDir ''bundle_id.txt'') = Some (File m' b) \<and>
                fault env (Sys_ReadFile (filepath_Join workDir ''bundle_id.txt'')) = None \<and>
                fault env (Sys_SetString ''bundle_id'') = None \<longrightarrow>
              metadata app' ''bundle_id'' = Some (TrimWhitespace b))))"
proof -
  from reaches_script [OF take pipe id known job tmp stage, of errNotFound]
  obtain w1 where w1: "queue w1 = jobs1" "app_store w1 = app_store w" "disk w1 = fs1"
    and pij: "ProcessIntegratedJob env integrated errNotFound w
        = conclude env returnJobId
            (case supervise env integrated workDir (AppId returnJob) app c returnJobId w1 of
               (r, w') \<Rightarrow> (r, w'\<lparr>disk := os_RemoveAll (disk w') (temp_dir env)\<rparr>))"
    by blast
  define w2 where "w2 = w1\<lparr>disk := fs2, started := started w1 @ [c],
      os_Stdout := os_Stdout w1 @ live (drain env (out_lines (entrypoint env c (JobTimeout integrated) fs1))),
      zerolog := zerolog w1 @ events (drain env (out_lines (entrypoint env c (JobTimeout integrated) fs1)))\<rparr>"
  have sup: "supervise env integrated workDir (AppId returnJob) app c returnJobId w1
      = store_result env workDir (AppId returnJob) app returnJobId w2"
    using exit0 after w1 by (simp add: supervise_def Let_def w2_def)
  have w2: "disk w2 = fs2" "app_store w2 = app_store w" "queue w2 = jobs1"
    using w1 by (simp_all add: w2_def)
  let ?sr = "store_result env workDir (AppId returnJob) app returnJobId w2"
  have pij': "ProcessIntegratedJob env integrated errNotFound w
      = conclude env returnJobId (fst ?sr, (snd ?sr)\<lparr>disk := os_RemoveAll (disk (snd ?sr)) (temp_dir env)\<rparr>)"
    unfolding pij sup by (simp add: case_prod_beta)
  have missing: "fs2 (filepath_Join workDir ''signed.ipa'') = None \<longrightarrow>
        (\<exists>e. fst (ProcessIntegratedJob env integrated errNotFound w)
               = Return (Some (WithMessage e ''signed app not found''))) \<and>
        GetById (queue (snd (ProcessIntegratedJob env integrated errNotFound w))) returnJobId = None \<and>
        app_store (snd (ProcessIntegratedJob env integrated errNotFound w)) = app_store w"
  proof
    assume "fs2 (filepath_Join workDir ''signed.ipa'') = None"
    with w2 have "disk w2 (filepath_Join workDir ''signed.ipa'') = None" by simp
    from store_result_missing [OF this, of env "AppId returnJob" app returnJobId]
    obtain e where e: "?sr = (Some (WithMessage e ''signed app not found''), w2)" by blast
    have "fst (ProcessIntegratedJob env integrated errNotFound w)
        = Return (Some (WithMessage e ''signed app not found''))"
      unfolding pij' e by (simp add: conclude_fst)
    moreover have "GetById (queue (snd (ProcessIntegratedJob env integrated errNotFound w))) returnJobId = None"
      unfolding pij' e using conclude_failed by simp
    moreover have "app_store (snd (ProcessIntegratedJob env integrated errNotFound w)) = app_store w"
      unfolding pij' e using w2 by (simp add: conclude_def Let_def split: prod.splits)
    ultimately show "(\<exists>e. fst (ProcessIntegratedJob env integrated errNotFound w)
               = Return (Some (WithMessage e ''signed app not found''))) \<and>
        GetById (queue (snd (ProcessIntegratedJob env integrated errNotFound w))) returnJobId = None \<and>
        app_store (snd (ProcessIntegratedJob env integrated errNotFound w)) = app_store w"
      by blast
  qed
  have stored: "\<forall>m content.
        fs2 (filepath_Join workDir ''signed.ipa'') = Some (File m content) \<and>
        fault env (Sys_Stat (filepath_Join workDir ''signed.ipa'')) = None \<and>
        fault env (Sys_Open (filepath_Join workDir ''signed.ipa'')) = None \<and>
        fault env (Sys_SetFile ''signed'') = None \<longrightarrow>
        fst (ProcessIntegratedJob env integrated errNotFound w) = Return None \<and>
        GetById (queue (snd (ProcessIntegratedJob env integrated errNotFound w))) returnJobId = None \<and>
        (\<exists>app'. app_store (snd (ProcessIntegratedJob env integrated errNotFound w)) (AppId returnJob)
                   = Some app' \<and>
           blobs app' ''signed'' = Some content \<and>
           (fs2 (filepath_Join workDir ''bundle_id.txt'') = None \<longrightarrow> metadata app' = metadata app) \<and>
           (\<forall>m' b. fs2 (filepath_Join workDir ''bundle_id.txt'') = Some (File m' b) \<and>
                fault env (Sys_ReadFile (filepath_Join workDir ''bundle_id.txt'')) = None \<and>
                fault env (Sys_SetString ''bundle_id'') = None \<longrightarrow>
              metadata app' ''bundle_id'' = Some (TrimWhitespace b)))"
  proof (intro allI impI)
    fix m content
    assume a: "fs2 (filepath_Join workDir ''signed.ipa'') = Some (File m content) \<and>
        fault env (Sys_Stat (filepath_Join workDir ''signed.ipa'')) = None \<and>
        fault env (Sys_Open (filepath_Join workDir ''signed.ipa'')) = None \<and>
        fault env (Sys_SetFile ''signed'') = None"
    then have d: "disk w2 (filepath_Join workDir ''signed.ipa'') = Some (File m content)"
      using w2 by simp
    from a have f1: "fault env (Sys_Stat (filepath_Join workDir ''signed.ipa'')) = None"
      and f2: "fault env (Sys_Open (filepath_Join workDir ''signed.ipa'')) = None"
      and f3: "fault env (Sys_SetFile ''signed'') = None" by simp_all
    note sr = store_result_stored [OF d f1 f2 f3, of "AppId returnJob" app returnJobId]
    have q: "queue (snd (ProcessIntegratedJob env integrated errNotFound w)) = queue (snd ?sr)"
      and ap: "app_store (snd (ProcessIntegratedJob env integrated errNotFound w)) = app_store (snd ?sr)"
      and r: "fst (ProcessIntegratedJob env integrated errNotFound w) = Return None"
      unfolding pij' using sr by (simp_all add: conclude_def)
    show "fst (ProcessIntegratedJob env integrated errNotFound w) = Return None \<and>
        GetById (queue (snd (ProcessIntegratedJob env integrated errNotFound w))) returnJobId = None \<and>
        (\<exists>app'. app_store (snd (ProcessIntegratedJob env integrated errNotFound w)) (AppId returnJob)
                   = Some app' \<and>
           blobs app' ''signed'' = Some content \<and>
           (fs2 (filepath_Join workDir ''bundle_id.txt'') = None \<longrightarrow> metadata app' = metadata app) \<and>
           (\<forall>m' b. fs2 (filepath_Join workDir ''bundle_id.txt'') = Some (File m' b) \<and>
                fault env (Sys_ReadFile (filepath_Join workDir ''bundle_id.txt'')) = None \<and>
                fault env (Sys_SetString ''bundle_id'') = None \<longrightarrow>
              metadata app' ''bundle_id'' = Some (TrimWhitespace b)))"
      unfolding q ap r using sr w2 by simp
  qed
  from missing stored show ?thesis by blast
qed

text \<open>
  The stub entrypoint exits with status 0 and leaves \<^verbatim>\<open>signed.ipa\<close> and \<^verbatim>\<open>bundle_id.txt\<close>: the
  application gets the artifact and the trimmed bundle id, and the entry is deleted. The
  entrypoint that exits with status 0 and leaves nothing makes the attempt fail, and the
  entry is deleted as well.
\<close>

theorem exit_status_zero_stores_signed_app_witness:
  "fst (ProcessIntegratedJob (demo_platform sign_ok) demo_builder ErrNotFound demo_world)
     = Return None \<and>
   GetById (queue (snd (ProcessIntegratedJob (demo_platform sign_ok) demo_builder ErrNotFound
                          demo_world))) ''job-7'' = None \<and>
   (\<exists>app'. app_store (snd (ProcessIntegratedJob (demo_platform sign_ok) demo_builder ErrNotFound
                            demo_world)) ''app-1'' = Some app' \<and>
      blobs app' ''signed'' = Some ''SIGNED'' \<and>
      metadata app' ''bundle_id'' = Some ''com.example.app'') \<and>
   (\<exists>e. fst (ProcessIntegratedJob (demo_platform sign_forgets) demo_builder ErrNotFound demo_world)
          = Return (Some (WithMessage e ''signed app not found''))) \<and>
   GetById (queue (snd (ProcessIntegratedJob (demo_platform sign_forgets) demo_builder ErrNotFound
                          demo_world))) ''job-7'' = None"
proof -
  define fs1 where "fs1 = snd (stage_sandbox (demo_platform sign_ok) demo_builder ''archive bytes''
      (AppId job_7) (app_store demo_world) (demo_disk(demo_sandbox \<mapsto> Dir 448)))"
  define fs1' where "fs1' = snd (stage_sandbox (demo_platform sign_forgets) demo_builder ''archive bytes''
      (AppId job_7) (app_store demo_world) (demo_disk(demo_sandbox \<mapsto> Dir 448)))"
  let ?c = "sign_cmd (demo_platform sign_ok) demo_builder demo_sandbox"
  let ?c' = "sign_cmd (demo_platform sign_forgets) demo_builder demo_sandbox"
  let ?run = "entrypoint (demo_platform sign_ok) ?c (JobTimeout demo_builder) fs1"
  let ?run' = "entrypoint (demo_platform sign_forgets) ?c' (JobTimeout demo_builder) fs1'"
  have exit0: "wait_err ?run = None"
    by (simp add: demo_platform_def sign_ok_def)
  have signed: "disk_after ?run (filepath_Join demo_sandbox ''signed.ipa'') = Some (File 420 ''SIGNED'')"
    by (simp add: demo_platform_def sign_ok_def sign_cmd_def)
  have bid: "disk_after ?run (filepath_Join demo_sandbox ''bundle_id.txt'')
      = Some (File 420 '' com.example.app\<newline>'')"
    by (simp add: demo_platform_def sign_ok_def sign_cmd_def)
  have nofault: "\<And>s. fault (demo_platform sign_ok) s = None"
    by (simp add: demo_platform_def no_fault_def)
  have trim: "TrimWhitespace '' com.example.app\<newline>'' = ''com.example.app''"
    by (simp add: TrimWhitespace_def TrimSpace_def leading_space_def space_runes_def)
  have exit0': "wait_err ?run' = None"
    by (simp add: demo_platform_def sign_forgets_def)
  have fs1'_signed: "fs1' (demo_sandbox @ [''signed.ipa'']) = None"
    unfolding fs1'_def by (simp add: demo_eval)
  have missing: "disk_after ?run' (filepath_Join demo_sandbox ''signed.ipa'') = None"
    using fs1'_signed by (simp add: demo_platform_def sign_forgets_def)
  note ok = exit_status_zero_stores_signed_app
    [OF demo_take demo_pipe demo_id _ demo_job demo_tmp demo_stage [of sign_ok, folded fs1_def] exit0 refl,
      of ErrNotFound]
  note forgot = exit_status_zero_stores_signed_app
    [OF demo_take demo_pipe demo_id _ demo_job demo_tmp demo_stage [of sign_forgets, folded fs1'_def] exit0' refl,
      of ErrNotFound]
  from ok signed bid nofault trim forgot missing show ?thesis
    by (simp add: job_7_def)
qed

lemma events_foldl:
  "events (foldl (scan_line env) s ls)
     = events s @ concat (map (\<lambda>l. case fst l of
         Stdout line \<Rightarrow>
           if logged_stdout env line then [Log InfoLevel ''sign script'' [(''line'', line)]] else []
       | Stderr line \<Rightarrow> [Log WarnLevel ''sign script stderr'' [(''line'', line)]]) ls)"
proof (induction ls arbitrary: s)
  case Nil
  show ?case by simp
next
  case (Cons l ls)
  obtain o' how where l: "l = (o', how)" by (cases l)
  show ?case unfolding l by (cases o') (simp_all add: Cons)
qed

lemma live_foldl:
  "live (foldl (scan_line env) s ls)
     = live s @ concat (map (\<lambda>l. (case fst l of Stdout x \<Rightarrow> x | Stderr x \<Rightarrow> x) @ ''\<newline>'') ls)"
proof (induction ls arbitrary: s)
  case Nil
  show ?case by simp
next
  case (Cons l ls)
  obtain o' how where l: "l = (o', how)" by (cases l)
  show ?case unfolding l by (cases o') (simp_all add: Cons)
qed

lemma outputBuffer_foldl:
  "\<forall>l \<in> set ls. snd l = Landed \<Longrightarrow>
   outputBuffer (foldl (scan_line env) s ls)
     = outputBuffer s @ concat (map (\<lambda>l. (case fst l of Stdout x \<Rightarrow> x | Stderr x \<Rightarrow> x) @ ''\<newline>'') ls)"
proof (induction ls arbitrary: s)
  case Nil
  show ?case by simp
next
  case (Cons l ls)
  obtain o' how where l: "l = (o', how)" by (cases l)
  from Cons.prems have how: "how = Landed" and rest: "\<forall>l \<in> set ls. snd l = Landed"
    by (simp_all add: l)
  show ?case unfolding l how by (cases o') (simp_all add: Cons.IH [OF rest] buffer_Write_def)
qed

text \<open>
  What holds of the two loops for every sequence of lines read, whatever the way the
  writes to the buffer land: the log has, line by line and in the order read, one
  ``sign script'' line for each line of standard output that, lowered to lower case,
  contains \<^verbatim>\<open>error\<close>, \<^verbatim>\<open>failed\<close>, \<^verbatim>\<open>exception\<close>, a two-factor prompt phrase
  (\<^verbatim>\<open>two-factor authentication (2fa) code\<close>, or \<^verbatim>\<open>2fa\<close> together with \<^verbatim>\<open>code\<close> or
  \<^verbatim>\<open>required\<close>) or \<^verbatim>\<open>please enter\<close>, none for any other line of standard output, and one
  warning ``sign script stderr'' for each line of the error stream; the live sink has every
  line read. The capture buffer has every line read when every write has landed.
\<close>

lemma drain_logs_each_line:
  "events (drain env ls)
     = concat (map (\<lambda>l. case fst l of
         Stdout line \<Rightarrow>
           if strings_Contains (strings_ToLower env line) ''error'' \<or>
              strings_Contains (strings_ToLower env line) ''failed'' \<or>
              strings_Contains (strings_ToLower env line) ''exception'' \<or>
              strings_Contains (strings_ToLower env line) ''two-factor authentication (2fa) code'' \<or>
              strings_Contains (strings_ToLower env line) ''please enter'' \<or>
              strings_Contains (strings_ToLower env line) ''2fa'' \<and>
                (strings_Contains (strings_ToLower env line) ''code'' \<or>
                 strings_Contains (strings_ToLower env line) ''required'')
           then [Log InfoLevel ''sign script'' [(''line'', line)]] else []
       | Stderr line \<Rightarrow> [Log WarnLevel ''sign script stderr'' [(''line'', line)]]) ls)"
  "live (drain env ls)
     = concat (map (\<lambda>l. (case fst l of Stdout x \<Rightarrow> x | Stderr x \<Rightarrow> x) @ ''\<newline>'') ls)"
  "\<forall>l \<in> set ls. snd l = Landed \<Longrightarrow>
   outputBuffer (drain env ls)
     = concat (map (\<lambda>l. (case fst l of Stdout x \<Rightarrow> x | Stderr x \<Rightarrow> x) @ ''\<newline>'') ls)"
  unfolding drain_def events_foldl live_foldl logged_stdout_def Let_def
  by (simp_all add: outputBuffer_foldl)

text \<open>
  Claim C8 fails on the code. The entrypoint writes \<^verbatim>\<open>ERROR: cert expired\<close> to its error
  stream and \<^verbatim>\<open>signing\<close> to its standard output at the same moment, as its first output.
  Both loops read their line, and both call \<^verbatim>\<open>Write\<close> on the empty capture buffer. The write
  of the error line ends first; the write of \<^verbatim>\<open>signing\<close>, which took the length 0 of the
  buffer before, lays its bytes over it. Both lines are read, the warning for the error
  line is logged and the live sink has both lines, but the capture buffer holds
  \<^verbatim>\<open>signing\<close> alone: a line read from a stream is not in the capture buffer.
\<close>

theorem colliding_write_drops_line_from_capture:
  "map fst racing_lines = [Stderr ''ERROR: cert expired'', Stdout ''signing''] \<and>
   events (drain (demo_platform sign_ok) racing_lines)
     = [Log WarnLevel ''sign script stderr'' [(''line'', ''ERROR: cert expired'')]] \<and>
   live (drain (demo_platform sign_ok) racing_lines) = ''ERROR: cert expired\<newline>signing\<newline>'' \<and>
   outputBuffer (drain (demo_platform sign_ok) racing_lines) = ''signing\<newline>'' \<and>
   \<not> sublist ''ERROR: cert expired'' (outputBuffer (drain (demo_platform sign_ok) racing_lines))"
proof -
  have e: "events (drain (demo_platform sign_ok) racing_lines)
     = [Log WarnLevel ''sign script stderr'' [(''line'', ''ERROR: cert expired'')]]"
    by (simp add: racing_lines_def drain_def logged_stdout_def demo_platform_def ToLower_def
        lower_byte_def strings_Contains_def sublist_code Let_def)
  have b: "outputBuffer (drain (demo_platform sign_ok) racing_lines) = ''signing\<newline>''"
    by (simp add: racing_lines_def drain_def buffer_Write_def)
  have l: "live (drain (demo_platform sign_ok) racing_lines) = ''ERROR: cert expired\<newline>signing\<newline>''"
    by (simp add: racing_lines_def drain_def)
  have n: "\<not> sublist ''ERROR: cert expired'' ''signing\<newline>''"
    by (simp add: sublist_code)
  from e b l n show ?thesis by (simp add: racing_lines_def)
qed

section \<open>Properties of the unpacking loop\<close>

lemma MkdirAll_up_inside:
  assumes "MkdirAll_up fs up perm = Inr fs'"
    and "fs sandbox = Some (Dir m)"
    and "prefix sandbox (rev up)"
  shows "(\<forall>q. \<not> prefix sandbox q \<longrightarrow> fs' q = fs q) \<and> fs' sandbox = fs sandbox"
  using assms
proof (induction up arbitrary: fs')
  case Nil
  then show ?case by simp
next
  case (Cons c up)
  show ?case
  proof (cases "fs (rev (c # up))")
    case None
    with Cons.prems(1) obtain fs1 where fs1: "MkdirAll_up fs up perm = Inr fs1"
      and fs': "fs' = fs1(rev (c # up) \<mapsto> Dir perm)"
      by (auto split: sum.splits)
    from None Cons.prems(2) have ne: "rev (c # up) \<noteq> sandbox" by auto
    with Cons.prems(3) have "prefix sandbox (rev up)" by (simp add: prefix_snoc)
    from Cons.IH [OF fs1 Cons.prems(2) this]
    have ih: "(\<forall>q. \<not> prefix sandbox q \<longrightarrow> fs1 q = fs q) \<and> fs1 sandbox = fs sandbox" .
    show ?thesis
    proof (intro conjI allI impI)
      fix q assume q: "\<not> prefix sandbox q"
      with Cons.prems(3) have "q \<noteq> rev (c # up)" by auto
      with ih q show "fs' q = fs q" by (simp add: fs')
    next
      from ne ih show "fs' sandbox = fs sandbox" by (simp add: fs')
    qed
  next
    case (Some n)
    with Cons.prems(1) show ?thesis by (cases n) auto
  qed
qed

lemma MkdirAll_up_existing: "is_dir fs (rev up) \<Longrightarrow> MkdirAll_up fs up perm = Inr fs"
  by (cases up) (auto simp: is_dir_def split: option.splits node.splits)

text \<open>One entry whose target lies in the sandbox changes nothing outside it.\<close>

lemma extract_step_inside:
  assumes sb: "fs sandbox = Some (Dir m)"
    and par: "is_dir fs (butlast sandbox)"
    and ins: "prefix sandbox (filepath_Join sandbox (Name (header e)))"
    and res: "extract_entries env sandbox (e # es) ending fs = r"
  shows "(\<exists>err fs1. r = (Some err, fs1) \<and> (\<forall>q. \<not> prefix sandbox q \<longrightarrow> fs1 q = fs q))
     \<or> (\<exists>fs1. r = extract_entries env sandbox es ending fs1 \<and> fs1 sandbox = fs sandbox \<and>
           (\<forall>q. \<not> prefix sandbox q \<longrightarrow> fs1 q = fs q))"
proof -
  let ?t = "filepath_Join sandbox (Name (header e))"
  show ?thesis
  proof (cases "Typeflag (header e) = tar_TypeDir")
    case True
    show ?thesis
    proof (cases "os_MkdirAll env fs ?t (FileMode (Mode (header e)))")
      case (Inl err)
      with True res show ?thesis by (auto simp: Let_def)
    next
      case (Inr fs1)
      then have "MkdirAll_up fs (rev ?t) (FileMode (Mode (header e))) = Inr fs1"
        by (simp add: os_MkdirAll_def split: option.splits)
      from MkdirAll_up_inside [OF this sb] ins
      have "(\<forall>q. \<not> prefix sandbox q \<longrightarrow> fs1 q = fs q) \<and> fs1 sandbox = fs sandbox" by simp
      with True Inr res show ?thesis by (auto simp: Let_def)
    qed
  next
    case False
    show ?thesis
    proof (cases "os_MkdirAll env fs (filepath_Dir ?t) 493")
      case (Inl err)
      with False res show ?thesis by (auto simp: Let_def)
    next
      case (Inr fs1)
      then have mk: "MkdirAll_up fs (rev (butlast ?t)) 493 = Inr fs1"
        by (simp add: os_MkdirAll_def filepath_Dir_def split: option.splits)
      show ?thesis
      proof (cases "?t = sandbox")
        case True
        with mk par MkdirAll_up_existing [of fs "rev (butlast sandbox)" 493] have "fs1 = fs" by simp
        with sb True have "os_OpenFile env fs1 ?t (FileMode (Mode (header e))) = Inl
            (case fault env (Sys_OpenFile ?t) of Some x \<Rightarrow> x
             | None \<Rightarrow> ErrorNew (''open '' @ path_string ?t @ '': is a directory''))"
          by (simp add: os_OpenFile_def open_trunc_def is_dir_def split: option.splits)
        with False Inr res \<open>fs1 = fs\<close> show ?thesis by (auto simp: Let_def)
      next
        case ne: False
        with ins have "prefix sandbox (butlast ?t)"
          by (metis append_butlast_last_id butlast.simps(1) prefix_snoc)
        with MkdirAll_up_inside [OF mk sb]
        have fs1: "(\<forall>q. \<not> prefix sandbox q \<longrightarrow> fs1 q = fs q) \<and> fs1 sandbox = fs sandbox" by simp
        show ?thesis
        proof (cases "os_OpenFile env fs1 ?t (FileMode (Mode (header e)))")
          case (Inl err)
          with False Inr res fs1 show ?thesis by (auto simp: Let_def)
        next
          case open_ok: (Inr fs2)
          then have fs2: "(\<forall>q. q \<noteq> ?t \<longrightarrow> fs2 q = fs1 q)"
            by (auto simp: os_OpenFile_def open_trunc_def split: option.splits if_splits node.splits)
          obtain werr fs3 where cp: "io_Copy_file env fs2 ?t e = (werr, fs3)"
            by (cases "io_Copy_file env fs2 ?t e")
          then have fs3: "(\<forall>q. q \<noteq> ?t \<longrightarrow> fs3 q = fs2 q)"
            by (auto simp: io_Copy_file_def write_file_def split: option.splits node.splits)
          from fs1 fs2 fs3 ins ne have all: "(\<forall>q. \<not> prefix sandbox q \<longrightarrow> fs3 q = fs q) \<and> fs3 sandbox = fs sandbox"
            by (metis (no_types, lifting))
          show ?thesis
          proof (cases werr)
            case None
            with False Inr open_ok cp res all show ?thesis by (auto simp: Let_def)
          next
            case (Some err)
            with False Inr open_ok cp res all show ?thesis by (auto simp: Let_def)
          qed
        qed
      qed
    qed
  qed
qed

lemma is_dir_parent_kept:
  assumes "is_dir fs (butlast sandbox)" and "\<forall>q. \<not> prefix sandbox q \<longrightarrow> fs1 q = fs q"
  shows "is_dir fs1 (butlast sandbox)"
proof (cases "sandbox = []")
  case True
  then show ?thesis by (simp add: is_dir_def)
next
  case False
  then have "length (butlast sandbox) < length sandbox" by simp
  then have "\<not> prefix sandbox (butlast sandbox)"
    using prefix_length_le by fastforce
  with assms show ?thesis by (simp add: is_dir_def)
qed

text \<open>
  When the sandbox and its parent are directories and every entry name of the archive
  resolves to the sandbox directory or to a path below it, unpacking creates and changes
  nothing outside the sandbox directory, whether it ends with an error or not.
\<close>

lemma unpacking_inside:
  assumes "fs sandbox = Some (Dir m)"
    and "is_dir fs (butlast sandbox)"
    and "\<forall>e \<in> set es. prefix sandbox (filepath_Join sandbox (Name (header e)))"
  shows "\<forall>q. \<not> prefix sandbox q \<longrightarrow> snd (extract_entries env sandbox es ending fs) q = fs q"
  using assms
proof (induction es arbitrary: fs)
  case Nil
  show ?case by simp
next
  case (Cons e es)
  from Cons.prems(3) have ins: "prefix sandbox (filepath_Join sandbox (Name (header e)))"
    and rest: "\<forall>e \<in> set es. prefix sandbox (filepath_Join sandbox (Name (header e)))"
    by simp_all
  from extract_step_inside [OF Cons.prems(1) Cons.prems(2) ins refl, of env es ending]
  consider err fs1 where "extract_entries env sandbox (e # es) ending fs = (Some err, fs1)"
      and "\<forall>q. \<not> prefix sandbox q \<longrightarrow> fs1 q = fs q"
    | fs1 where "extract_entries env sandbox (e # es) ending fs = extract_entries env sandbox es ending fs1"
      and "fs1 sandbox = fs sandbox" and "\<forall>q. \<not> prefix sandbox q \<longrightarrow> fs1 q = fs q"
    by blast
  then show ?case
  proof cases
    case 1
    then show ?thesis by simp
  next
    case 2
    from 2(2) Cons.prems(1) have sb: "fs1 sandbox = Some (Dir m)" by simp
    from is_dir_parent_kept [OF Cons.prems(2) 2(3)] have par: "is_dir fs1 (butlast sandbox)" .
    from Cons.IH [OF sb par rest]
    have "\<forall>q. \<not> prefix sandbox q \<longrightarrow> snd (extract_entries env sandbox es ending fs1) q = fs1 q" .
    with 2(1) 2(3) show ?thesis by simp
  qed
qed

text \<open>What the calls of one step leave behind.\<close>

lemma MkdirAll_up_is_dir:
  "MkdirAll_up fs up perm = Inr fs1 \<Longrightarrow> is_dir fs1 (rev up)"
  by (cases up) (auto simp: is_dir_def split: option.splits node.splits sum.splits)

lemma MkdirAll_up_keeps:
  "MkdirAll_up fs up perm = Inr fs1 \<Longrightarrow> fs q \<noteq> None \<Longrightarrow> fs1 q = fs q"
proof (induction up arbitrary: fs1)
  case Nil
  then show ?case by simp
next
  case (Cons c up)
  show ?case
  proof (cases "fs (rev (c # up))")
    case None
    with Cons.prems(1) obtain fs0 where fs0: "MkdirAll_up fs up perm = Inr fs0"
      and fs1: "fs1 = fs0(rev (c # up) \<mapsto> Dir perm)"
      by (auto split: sum.splits)
    from None Cons.prems(2) have "q \<noteq> rev (c # up)" by auto
    with Cons.IH [OF fs0 Cons.prems(2)] show ?thesis by (simp add: fs1)
  next
    case (Some n)
    with Cons.prems(1) show ?thesis by (cases n) auto
  qed
qed

lemma os_MkdirAll_is_dir:
  "os_MkdirAll env fs p perm = Inr fs1 \<Longrightarrow> is_dir fs1 p"
  using MkdirAll_up_is_dir [of fs "rev p" perm fs1]
  by (simp add: os_MkdirAll_def split: option.splits)

lemma os_MkdirAll_keeps:
  "os_MkdirAll env fs p perm = Inr fs1 \<Longrightarrow> fs q \<noteq> None \<Longrightarrow> fs1 q = fs q"
  using MkdirAll_up_keeps [of fs "rev p" perm fs1 q]
  by (simp add: os_MkdirAll_def split: option.splits)

lemma os_OpenFile_empty:
  "os_OpenFile env fs p perm = Inr fs2 \<Longrightarrow> \<exists>m. fs2 p = Some (File m [])"
  by (auto simp: os_OpenFile_def open_trunc_def split: option.splits if_splits node.splits)

lemma os_OpenFile_keeps:
  "os_OpenFile env fs p perm = Inr fs2 \<Longrightarrow>
   (is_dir fs q \<longrightarrow> is_dir fs2 q) \<and>
   ((\<exists>m c. fs q = Some (File m c)) \<longrightarrow> (\<exists>m c. fs2 q = Some (File m c)))"
  by (auto simp: os_OpenFile_def open_trunc_def is_dir_def split: option.splits if_splits node.splits)

lemma io_Copy_file_keeps:
  "io_Copy_file env fs p e = (r, fs3) \<Longrightarrow>
   (is_dir fs q \<longrightarrow> is_dir fs3 q) \<and>
   ((\<exists>m c. fs q = Some (File m c)) \<longrightarrow> (\<exists>m c. fs3 q = Some (File m c)))"
  by (auto simp: io_Copy_file_def write_file_def is_dir_def split: option.splits if_splits node.splits)

lemma io_Copy_file_payload:
  "io_Copy_file env fs p e = (None, fs3) \<Longrightarrow> fs p = Some (File m []) \<Longrightarrow>
   fs3 p = Some (File m (payload e)) \<and> payload_err e = None"
  by (auto simp: io_Copy_file_def write_file_def split: option.splits)

lemma keeps_by_values:
  assumes "\<And>q. fs q \<noteq> None \<Longrightarrow> fs1 q = fs q"
  shows "(is_dir fs q \<longrightarrow> is_dir fs1 q) \<and>
   ((\<exists>m c. fs q = Some (File m c)) \<longrightarrow> (\<exists>m c. fs1 q = Some (File m c)))"
  using assms [of q] by (auto simp: is_dir_def split: option.splits node.splits)

text \<open>Unpacking never turns a directory into something else, nor a file.\<close>

lemma extract_entries_keeps:
  "(is_dir fs q \<longrightarrow> is_dir (snd (extract_entries env sandbox es ending fs)) q) \<and>
   ((\<exists>m c. fs q = Some (File m c)) \<longrightarrow>
      (\<exists>m c. snd (extract_entries env sandbox es ending fs) q = Some (File m c)))"
proof (induction es arbitrary: fs)
  case Nil
  show ?case by simp
next
  case (Cons e es)
  let ?t = "filepath_Join sandbox (Name (header e))"
  let ?K = "\<lambda>fs fs'. (is_dir fs q \<longrightarrow> is_dir fs' q) \<and>
      ((\<exists>m c. fs q = Some (File m c)) \<longrightarrow> (\<exists>m c. fs' q = Some (File m c)))"
  show ?case
  proof (cases "Typeflag (header e) = tar_TypeDir")
    case True
    show ?thesis
    proof (cases "os_MkdirAll env fs ?t (FileMode (Mode (header e)))")
      case (Inl err)
      with True show ?thesis by (simp add: Let_def)
    next
      case (Inr fs1)
      from keeps_by_values [of fs fs1 q] os_MkdirAll_keeps [OF Inr]
      have "?K fs fs1" by blast
      with Cons.IH [of fs1] True Inr show ?thesis by (simp add: Let_def)
    qed
  next
    case False
    show ?thesis
    proof (cases "os_MkdirAll env fs (filepath_Dir ?t) 493")
      case (Inl err)
      with False show ?thesis by (simp add: Let_def)
    next
      case (Inr fs1)
      from keeps_by_values [of fs fs1 q] os_MkdirAll_keeps [OF Inr]
      have k1: "?K fs fs1" by blast
      show ?thesis
      proof (cases "os_OpenFile env fs1 ?t (FileMode (Mode (header e)))")
        case (Inl err)
        with False Inr k1 show ?thesis by (simp add: Let_def)
      next
        case open_ok: (Inr fs2)
        from os_OpenFile_keeps [OF open_ok, of q] k1 have k2: "?K fs fs2" by blast
        obtain werr fs3 where cp: "io_Copy_file env fs2 ?t e = (werr, fs3)"
          by (cases "io_Copy_file env fs2 ?t e")
        from io_Copy_file_keeps [OF cp, of q] k2 have k3: "?K fs fs3" by blast
        show ?thesis
        proof (cases werr)
          case None
          with False Inr open_ok cp k3 Cons.IH [of fs3] show ?thesis by (simp add: Let_def)
        next
          case (Some err)
          with False Inr open_ok cp k3 show ?thesis by (simp add: Let_def)
        qed
      qed
    qed
  qed
qed

lemma extract_entries_written:
  assumes "fst (extract_entries env sandbox es ending fs) = None" and "a \<in> set es"
  shows "if Typeflag (header a) = tar_TypeDir
     then is_dir (snd (extract_entries env sandbox es ending fs)) (filepath_Join sandbox (Name (header a)))
     else (\<exists>m c. snd (extract_entries env sandbox es ending fs) (filepath_Join sandbox (Name (header a)))
             = Some (File m c))"
  using assms
proof (induction es arbitrary: fs)
  case Nil
  then show ?case by simp
next
  case (Cons e es)
  let ?t = "filepath_Join sandbox (Name (header e))"
  let ?goal = "\<lambda>fs'. if Typeflag (header a) = tar_TypeDir
     then is_dir fs' (filepath_Join sandbox (Name (header a)))
     else (\<exists>m c. fs' (filepath_Join sandbox (Name (header a))) = Some (File m c))"
  show ?case
  proof (cases "Typeflag (header e) = tar_TypeDir")
    case True
    show ?thesis
    proof (cases "os_MkdirAll env fs ?t (FileMode (Mode (header e)))")
      case (Inl err)
      with True Cons.prems(1) show ?thesis by (simp add: Let_def)
    next
      case (Inr fs1)
      with True have step: "extract_entries env sandbox (e # es) ending fs
          = extract_entries env sandbox es ending fs1"
        by (simp add: Let_def)
      show ?thesis
      proof (cases "a \<in> set es")
        case True
        from Cons.IH [of fs1] Cons.prems(1) True show ?thesis unfolding step by simp
      next
        case False
        with Cons.prems(2) have a: "a = e" by simp
        from os_MkdirAll_is_dir [OF Inr] extract_entries_keeps [of fs1 ?t env sandbox es ending]
        have "is_dir (snd (extract_entries env sandbox es ending fs1)) ?t" by simp
        with \<open>Typeflag (header e) = tar_TypeDir\<close> show ?thesis unfolding step a by simp
      qed
    qed
  next
    case nd: False
    show ?thesis
    proof (cases "os_MkdirAll env fs (filepath_Dir ?t) 493")
      case (Inl err)
      with nd Cons.prems(1) show ?thesis by (simp add: Let_def)
    next
      case (Inr fs1)
      show ?thesis
      proof (cases "os_OpenFile env fs1 ?t (FileMode (Mode (header e)))")
        case (Inl err)
        with nd Inr Cons.prems(1) show ?thesis by (simp add: Let_def)
      next
        case open_ok: (Inr fs2)
        obtain werr fs3 where cp: "io_Copy_file env fs2 ?t e = (werr, fs3)"
          by (cases "io_Copy_file env fs2 ?t e")
        show ?thesis
        proof (cases werr)
          case (Some err)
          with nd Inr open_ok cp Cons.prems(1) show ?thesis by (simp add: Let_def)
        next
          case None
          with nd Inr open_ok cp have step: "extract_entries env sandbox (e # es) ending fs
              = extract_entries env sandbox es ending fs3"
            by (simp add: Let_def)
          show ?thesis
          proof (cases "a \<in> set es")
            case True
            from Cons.IH [of fs3] Cons.prems(1) True show ?thesis unfolding step by simp
          next
            case False
            with Cons.prems(2) have a: "a = e" by simp
            from os_OpenFile_empty [OF open_ok] obtain m where "fs2 ?t = Some (File m [])" by blast
            with io_Copy_file_payload [OF cp [unfolded None]]
            have "\<exists>m c. fs3 ?t = Some (File m c)" by blast
            with extract_entries_keeps [of fs3 ?t env sandbox es ending]
            have "\<exists>m c. snd (extract_entries env sandbox es ending fs3) ?t = Some (File m c)"
              by blast
            with nd show ?thesis unfolding step a by simp
          qed
        qed
      qed
    qed
  qed
qed

text \<open>
  Claim C3, as amended. The loop writes every entry at \<^verbatim>\<open>filepath.Join(workDir, name)\<close> and
  validates no name. For an entry \<open>e\<close> of any name, followed by the entries \<open>es\<close>, with the
  target \<open>t\<close> that the name joins to:
  a directory entry is made at \<open>t\<close> with \<^verbatim>\<open>os.MkdirAll\<close>, and the loop stops there only with the
  error of that call; a file entry has its parent directory made, is created at \<open>t\<close> and
  filled with its payload, and the loop stops there only with the error of one of these
  three calls; in every other case the entry is at \<open>t\<close> and the loop goes on with the next
  entry. After the last entry the loop ends without an error when the reader ends with
  \<^verbatim>\<open>io.EOF\<close>, and with the reader's error otherwise. So when unpacking the archive \<open>arch\<close>
  returns no error, every directory entry is a directory and every file entry is a file at
  the path its name joins to. And when the sandbox and its parent are directories and
  every entry name of \<open>arch\<close> joins to the sandbox directory or to a path below it,
  unpacking creates and changes nothing outside the sandbox directory, whether it ends
  with an error or not.
\<close>

theorem unpacking_joins_every_name_unchecked:
  "extract_entries env sandbox [] ending fs
     = (if ending = io_EOF then (None, fs) else (Some (WithMessage ending ''read tar''), fs)) \<and>
   (let t = filepath_Join sandbox (Name (header e)) in
    (Typeflag (header e) = tar_TypeDir \<longrightarrow>
       (\<forall>cause. os_MkdirAll env fs t (FileMode (Mode (header e))) = Inl cause \<longrightarrow>
          extract_entries env sandbox (e # es) ending fs
            = (Some (WithMessage cause (''mkdir '' @ Name (header e))), fs)) \<and>
       (\<forall>fs1. os_MkdirAll env fs t (FileMode (Mode (header e))) = Inr fs1 \<longrightarrow>
          is_dir fs1 t \<and>
          extract_entries env sandbox (e # es) ending fs = extract_entries env sandbox es ending fs1)) \<and>
    (Typeflag (header e) \<noteq> tar_TypeDir \<longrightarrow>
       (\<forall>cause. os_MkdirAll env fs (filepath_Dir t) 493 = Inl cause \<longrightarrow>
          extract_entries env sandbox (e # es) ending fs
            = (Some (WithMessage cause (''mkdir parent '' @ path_string t)), fs)) \<and>
       (\<forall>fs1. os_MkdirAll env fs (filepath_Dir t) 493 = Inr fs1 \<longrightarrow>
          (\<forall>cause. os_OpenFile env fs1 t (FileMode (Mode (header e))) = Inl cause \<longrightarrow>
             extract_entries env sandbox (e # es) ending fs
               = (Some (WithMessage cause (''create file '' @ Name (header e))), fs1)) \<and>
          (\<forall>fs2. os_OpenFile env fs1 t (FileMode (Mode (header e))) = Inr fs2 \<longrightarrow>
             (\<forall>cause fs3. io_Copy_file env fs2 t e = (Some cause, fs3) \<longrightarrow>
                extract_entries env sandbox (e # es) ending fs
                  = (Some (WithMessage cause (''write file '' @ Name (header e))), fs3)) \<and>
             (\<forall>fs3. io_Copy_file env fs2 t e = (None, fs3) \<longrightarrow>
                (\<exists>m. fs3 t = Some (File m (payload e))) \<and>
                extract_entries env sandbox (e # es) ending fs
                  = extract_entries env sandbox es ending fs3))))) \<and>
   (fst (extract_entries env sandbox arch ending fs) = None \<longrightarrow>
      (\<forall>a \<in> set arch.
         if Typeflag (header a) = tar_TypeDir
         then is_dir (snd (extract_entries env sandbox arch ending fs))
                (filepath_Join sandbox (Name (header a)))
         else (\<exists>m c. snd (extract_entries env sandbox arch ending fs)
                        (filepath_Join sandbox (Name (header a))) = Some (File m c)))) \<and>
   (fs sandbox = Some (Dir m) \<and> is_dir fs (butlast sandbox) \<and>
    (\<forall>a \<in> set arch. prefix sandbox (filepath_Join sandbox (Name (header a)))) \<longrightarrow>
      (\<forall>q. \<not> prefix sandbox q \<longrightarrow> snd (extract_entries env sandbox arch ending fs) q = fs q))"
proof -
  let ?t = "filepath_Join sandbox (Name (header e))"
  have nil_case: "extract_entries env sandbox [] ending fs
     = (if ending = io_EOF then (None, fs) else (Some (WithMessage ending ''read tar''), fs))"
    by simp
  have dir_case: "Typeflag (header e) = tar_TypeDir \<longrightarrow>
       (\<forall>cause. os_MkdirAll env fs ?t (FileMode (Mode (header e))) = Inl cause \<longrightarrow>
          extract_entries env sandbox (e # es) ending fs
            = (Some (WithMessage cause (''mkdir '' @ Name (header e))), fs)) \<and>
       (\<forall>fs1. os_MkdirAll env fs ?t (FileMode (Mode (header e))) = Inr fs1 \<longrightarrow>
          is_dir fs1 ?t \<and>
          extract_entries env sandbox (e # es) ending fs = extract_entries env sandbox es ending fs1)"
    using os_MkdirAll_is_dir [of env fs ?t "FileMode (Mode (header e))"]
    by (simp add: Let_def)
  have file_case: "Typeflag (header e) \<noteq> tar_TypeDir \<longrightarrow>
       (\<forall>cause. os_MkdirAll env fs (filepath_Dir ?t) 493 = Inl cause \<longrightarrow>
          extract_entries env sandbox (e # es) ending fs
            = (Some (WithMessage cause (''mkdir parent '' @ path_string ?t)), fs)) \<and>
       (\<forall>fs1. os_MkdirAll env fs (filepath_Dir ?t) 493 = Inr fs1 \<longrightarrow>
          (\<forall>cause. os_OpenFile env fs1 ?t (FileMode (Mode (header e))) = Inl cause \<longrightarrow>
             extract_entries env sandbox (e # es) ending fs
               = (Some (WithMessage cause (''create file '' @ Name (header e))), fs1)) \<and>
          (\<forall>fs2. os_OpenFile env fs1 ?t (FileMode (Mode (header e))) = Inr fs2 \<longrightarrow>
             (\<forall>cause fs3. io_Copy_file env fs2 ?t e = (Some cause, fs3) \<longrightarrow>
                extract_entries env sandbox (e # es) ending fs
                  = (Some (WithMessage cause (''write file '' @ Name (header e))), fs3)) \<and>
             (\<forall>fs3. io_Copy_file env fs2 ?t e = (None, fs3) \<longrightarrow>
                (\<exists>m. fs3 ?t = Some (File m (payload e))) \<and>
                extract_entries env sandbox (e # es) ending fs
                  = extract_entries env sandbox es ending fs3)))"
  proof (intro impI allI conjI)
    fix fs1 fs2 fs3
    assume "os_OpenFile env fs1 ?t (FileMode (Mode (header e))) = Inr fs2"
      and cp: "io_Copy_file env fs2 ?t e = (None, fs3)"
    from os_OpenFile_empty [OF this(1)] obtain m' where "fs2 ?t = Some (File m' [])" by blast
    from io_Copy_file_payload [OF cp this]
    show "\<exists>m. fs3 ?t = Some (File m (payload e))" by blast
  qed (simp_all add: Let_def)
  have written: "fst (extract_entries env sandbox arch ending fs) = None \<longrightarrow>
      (\<forall>a \<in> set arch.
         if Typeflag (header a) = tar_TypeDir
         then is_dir (snd (extract_entries env sandbox arch ending fs))
                (filepath_Join sandbox (Name (header a)))
         else (\<exists>m c. snd (extract_entries env sandbox arch ending fs)
                        (filepath_Join sandbox (Name (header a))) = Some (File m c)))"
    using extract_entries_written [of env sandbox arch ending fs] by blast
  have inside: "fs sandbox = Some (Dir m) \<and> is_dir fs (butlast sandbox) \<and>
    (\<forall>a \<in> set arch. prefix sandbox (filepath_Join sandbox (Name (header a)))) \<longrightarrow>
      (\<forall>q. \<not> prefix sandbox q \<longrightarrow> snd (extract_entries env sandbox arch ending fs) q = fs q)"
    using unpacking_inside [of fs sandbox m arch env ending] by blast
  from nil_case dir_case file_case written inside show ?thesis
    unfolding Let_def by (intro conjI)
qed

text \<open>
  The directory \<^verbatim>\<open>lib/\<close> and the file \<^verbatim>\<open>/etc/x\<close> are unpacked into the fresh sandbox
  \<^verbatim>\<open>/tmp/ios-signer-integrated-1\<close>. The rooted name is not rejected: it joins to
  \<^verbatim>\<open>etc/x\<close> below the sandbox, the three calls succeed, and the file is there with its
  payload. Unpacking returns no error, both entries are at their targets, and \<^verbatim>\<open>/etc/x\<close>
  and \<^verbatim>\<open>/tmp\<close> outside the sandbox are as before. With a directory in the place of the file,
  the loop stops with the error of \<^verbatim>\<open>os.OpenFile\<close>; and a reader that ends with an unexpected
  end of file makes the loop return ``read tar''.
\<close>

theorem unpacking_joins_every_name_unchecked_witness:
  "filepath_Join demo_sandbox (Name (header rooted_entry)) = demo_sandbox @ [''etc'', ''x''] \<and>
   (\<exists>fs3. extract_entries (demo_platform sign_ok) demo_sandbox [rooted_entry] io_EOF
             (demo_disk(demo_sandbox \<mapsto> Dir 448, demo_sandbox @ [''lib''] \<mapsto> Dir 493))
           = (None, fs3) \<and>
          fs3 (demo_sandbox @ [''etc'', ''x'']) = Some (File 420 ''k=v'')) \<and>
   fst (extract_entries (demo_platform sign_ok) demo_sandbox [lib_entry, rooted_entry] io_EOF
          (demo_disk(demo_sandbox \<mapsto> Dir 448))) = None \<and>
   is_dir (snd (extract_entries (demo_platform sign_ok) demo_sandbox [lib_entry, rooted_entry] io_EOF
                  (demo_disk(demo_sandbox \<mapsto> Dir 448)))) (demo_sandbox @ [''lib'']) \<and>
   (\<exists>m c. snd (extract_entries (demo_platform sign_ok) demo_sandbox [lib_entry, rooted_entry] io_EOF
                  (demo_disk(demo_sandbox \<mapsto> Dir 448))) (demo_sandbox @ [''etc'', ''x''])
            = Some (File m c)) \<and>
   snd (extract_entries (demo_platform sign_ok) demo_sandbox [lib_entry, rooted_entry] io_EOF
          (demo_disk(demo_sandbox \<mapsto> Dir 448))) [''etc'', ''x''] = None \<and>
   snd (extract_entries (demo_platform sign_ok) demo_sandbox [lib_entry, rooted_entry] io_EOF
          (demo_disk(demo_sandbox \<mapsto> Dir 448))) [''tmp''] = Some (Dir 511) \<and>
   extract_entries (demo_platform sign_ok) demo_sandbox [rooted_entry] io_EOF
       (demo_disk(demo_sandbox \<mapsto> Dir 448, demo_sandbox @ [''etc'', ''x''] \<mapsto> Dir 493))
     = (Some (WithMessage (ErrorNew ''open /tmp/ios-signer-integrated-1/etc/x: is a directory'')
                ''create file /etc/x''),
        demo_disk(demo_sandbox \<mapsto> Dir 448, demo_sandbox @ [''etc'', ''x''] \<mapsto> Dir 493,
                  demo_sandbox @ [''etc''] \<mapsto> Dir 493)) \<and>
   extract_entries (demo_platform sign_ok) demo_sandbox [] io_ErrUnexpectedEOF demo_disk
     = (Some (WithMessage io_ErrUnexpectedEOF ''read tar''), demo_disk)"
proof -
  let ?P = "demo_platform sign_ok"
  let ?fs = "demo_disk(demo_sandbox \<mapsto> Dir 448)"
  let ?lib = "?fs(demo_sandbox @ [''lib''] \<mapsto> Dir 493)"
  let ?t = "demo_sandbox @ [''etc'', ''x'']"
  let ?blocked = "?fs(?t \<mapsto> Dir 493)"
  let ?arch = "[lib_entry, rooted_entry]"
  have t: "filepath_Join demo_sandbox (Name (header rooted_entry)) = ?t"
    by (simp add: rooted_entry_def filepath_Join_def)
  have kind: "Typeflag (header rooted_entry) \<noteq> tar_TypeDir"
    by (simp add: rooted_entry_def tar_TypeDir_def)
  have mk: "os_MkdirAll ?P ?lib (filepath_Dir ?t) 493 = Inr (?lib(demo_sandbox @ [''etc''] \<mapsto> Dir 493))"
    by (simp add: os_MkdirAll_def demo_platform_def no_fault_def filepath_Dir_def demo_sandbox_def
        demo_disk_def)
  have op: "os_OpenFile ?P (?lib(demo_sandbox @ [''etc''] \<mapsto> Dir 493)) ?t
        (FileMode (Mode (header rooted_entry)))
      = Inr (?lib(demo_sandbox @ [''etc''] \<mapsto> Dir 493, ?t \<mapsto> File 420 []))"
    by (simp add: os_OpenFile_def open_trunc_def is_dir_def demo_platform_def no_fault_def
        demo_sandbox_def demo_disk_def rooted_entry_def FileMode_def)
  have cp: "io_Copy_file ?P (?lib(demo_sandbox @ [''etc''] \<mapsto> Dir 493, ?t \<mapsto> File 420 [])) ?t
        rooted_entry
      = (None, ?lib(demo_sandbox @ [''etc''] \<mapsto> Dir 493, ?t \<mapsto> File 420 ''k=v''))"
    by (simp add: io_Copy_file_def write_file_def demo_platform_def no_fault_def rooted_entry_def)
  have mk_b: "os_MkdirAll ?P ?blocked (filepath_Dir ?t) 493
      = Inr (?blocked(demo_sandbox @ [''etc''] \<mapsto> Dir 493))"
    by (simp add: os_MkdirAll_def demo_platform_def no_fault_def filepath_Dir_def demo_sandbox_def
        demo_disk_def)
  have op_b: "os_OpenFile ?P (?blocked(demo_sandbox @ [''etc''] \<mapsto> Dir 493)) ?t
        (FileMode (Mode (header rooted_entry)))
      = Inl (ErrorNew ''open /tmp/ios-signer-integrated-1/etc/x: is a directory'')"
    by (simp add: os_OpenFile_def open_trunc_def is_dir_def demo_platform_def no_fault_def
        demo_sandbox_def path_string_def)
  have ok: "fst (extract_entries ?P demo_sandbox ?arch io_EOF ?fs) = None"
    by (simp add: lib_entry_def rooted_entry_def demo_eval)
  have sb: "?fs demo_sandbox = Some (Dir 448)" by simp
  have par: "is_dir ?fs (butlast demo_sandbox)"
    by (simp add: is_dir_def demo_sandbox_def demo_disk_def)
  have ins: "\<forall>a \<in> set ?arch. prefix demo_sandbox (filepath_Join demo_sandbox (Name (header a)))"
    by (simp add: lib_entry_def rooted_entry_def filepath_Join_def demo_sandbox_def)
  have names: "filepath_Join demo_sandbox (Name (header lib_entry)) = demo_sandbox @ [''lib'']"
    "Typeflag (header lib_entry) = tar_TypeDir"
    by (simp_all add: lib_entry_def filepath_Join_def tar_TypeDir_def)
  have out: "\<not> prefix demo_sandbox [''etc'', ''x'']" "\<not> prefix demo_sandbox [''tmp'']"
    "?fs [''etc'', ''x''] = None" "?fs [''tmp''] = Some (Dir 511)"
    by (simp_all add: demo_sandbox_def demo_disk_def)
  have step: "\<exists>fs3. extract_entries ?P demo_sandbox [rooted_entry] io_EOF ?lib = (None, fs3) \<and>
      fs3 ?t = Some (File 420 ''k=v'')"
    using unpacking_joins_every_name_unchecked
      [where env = "?P" and sandbox = demo_sandbox and e = rooted_entry and es = "[]"
         and ending = io_EOF and fs = "?lib" and arch = "[]"]
      t kind mk op cp
    by (simp add: Let_def)
  have whole: "is_dir (snd (extract_entries ?P demo_sandbox ?arch io_EOF ?fs)) (demo_sandbox @ [''lib'']) \<and>
      (\<exists>m c. snd (extract_entries ?P demo_sandbox ?arch io_EOF ?fs) ?t = Some (File m c)) \<and>
      snd (extract_entries ?P demo_sandbox ?arch io_EOF ?fs) [''etc'', ''x''] = None \<and>
      snd (extract_entries ?P demo_sandbox ?arch io_EOF ?fs) [''tmp''] = Some (Dir 511)"
    using unpacking_joins_every_name_unchecked
      [where env = "?P" and sandbox = demo_sandbox and e = lib_entry and es = "[rooted_entry]"
         and ending = io_EOF and fs = "?fs" and arch = ?arch and m = 448]
      ok sb par ins names t kind out
    by simp
  have blocked: "extract_entries ?P demo_sandbox [rooted_entry] io_EOF ?blocked
     = (Some (WithMessage (ErrorNew ''open /tmp/ios-signer-integrated-1/etc/x: is a directory'')
                ''create file /etc/x''),
        ?blocked(demo_sandbox @ [''etc''] \<mapsto> Dir 493))"
    using unpacking_joins_every_name_unchecked
      [where env = "?P" and sandbox = demo_sandbox and e = rooted_entry and es = "[]"
         and ending = io_EOF and fs = "?blocked" and arch = "[]"]
      t kind mk_b op_b
    by (simp add: Let_def rooted_entry_def)
  have cut: "extract_entries ?P demo_sandbox [] io_ErrUnexpectedEOF demo_disk
     = (Some (WithMessage io_ErrUnexpectedEOF ''read tar''), demo_disk)"
    using unpacking_joins_every_name_unchecked
      [where env = "?P" and sandbox = demo_sandbox and e = rooted_entry and es = "[]"
         and ending = io_ErrUnexpectedEOF and fs = demo_disk and arch = "[]"]
    by (simp add: io_EOF_def io_ErrUnexpectedEOF_def)
  from t step ok whole blocked cut show ?thesis by (intro conjI) blast+
qed

text \<open>
  Claim C3 as it is stated fails. The archive of job \<^verbatim>\<open>job-7\<close> carries an entry named
  \<^verbatim>\<open>../evil.sh\<close>, which resolves to \<^verbatim>\<open>/tmp/evil.sh\<close>, outside the sandbox
  \<^verbatim>\<open>/tmp/ios-signer-integrated-1\<close> (\<^verbatim>\<open>archive/tar\<close> hands such a name to its caller unless
  the process runs with \<^verbatim>\<open>GODEBUG=tarinsecurepath=0\<close>). The entry is not rejected: the job runs to its end and
  ProcessIntegratedJob returns \<^verbatim>\<open>nil\<close>; and the file, which did not exist before, is there
  afterwards, when the sandbox has been removed.
\<close>

theorem climbing_entry_written_outside_sandbox:
  "filepath_Join demo_sandbox ''../evil.sh'' = [''tmp'', ''evil.sh''] \<and>
   \<not> prefix demo_sandbox [''tmp'', ''evil.sh''] \<and>
   disk demo_world [''tmp'', ''evil.sh''] = None \<and>
   fst (ProcessIntegratedJob evil_platform demo_builder ErrNotFound demo_world) = Return None \<and>
   disk (snd (ProcessIntegratedJob evil_platform demo_builder ErrNotFound demo_world))
     [''tmp'', ''evil.sh''] = Some (File 493 ''#!sh'') \<and>
   disk (snd (ProcessIntegratedJob evil_platform demo_builder ErrNotFound demo_world))
     demo_sandbox = None"
  by (simp add: evil_platform_def evil_reader_def evil_view_def evil_entry_def os_RemoveAll_def
      demo_eval)

end
